theory Spec2Isabelle
  imports Main "HOL-Library.Word"
begin

unbundle bit_operations_syntax

section \<open>Go values shared by all packages\<close>

text \<open>
  A Go \<^verbatim>\<open>[]byte\<close> is a list of 8-bit words. A slice expression \<^verbatim>\<open>s[lo:hi]\<close> is
  modelled with the capacity of \<^verbatim>\<open>s\<close> equal to its length, which is what the callers of
  this repository pass (buffers read from a socket, results of the standard library); the
  expression panics unless \<open>lo \<le> hi \<le> length s\<close>.
\<close>

type_synonym byte = "8 word"

text \<open>
  Go \<^verbatim>\<open>error\<close> values. \<^verbatim>\<open>errors.New\<close> and \<^verbatim>\<open>fmt.Errorf\<close> without \<^verbatim>\<open>%w\<close> give an
  \<open>ErrorString\<close>; \<^verbatim>\<open>fmt.Errorf\<close> with \<^verbatim>\<open>%w\<close> gives a \<open>WrapError\<close> holding the formatted
  message and the wrapped error; \<open>IDSError\<close> is the struct \<^verbatim>\<open>ids.IDSError{ErrorCode}\<close>.
\<close>

datatype go_error =
    ErrorString string
  | WrapError string go_error
  | IDSError int

datatype panic = SliceBoundsOutOfRange | IndexOutOfRange

text \<open>What a call does: it returns a value, returns an error, or panics.\<close>

datatype 'a result = Ok 'a | Err go_error | Panic panic

text \<open>An RSA private key of \<^verbatim>\<open>crypto/rsa\<close>, opaque here.\<close>

datatype rsa_PrivateKey = RSAPrivateKey nat

subsection \<open>Formatting with \<^verbatim>\<open>%d\<close>\<close>

definition digit_char :: "nat \<Rightarrow> char" where
  "digit_char d = ''0123456789'' ! d"

fun nat_to_string :: "nat \<Rightarrow> string" where
  "nat_to_string n =
     (if n < 10 then [digit_char n] else nat_to_string (n div 10) @ [digit_char (n mod 10)])"

declare nat_to_string.simps [simp del]

definition int_to_string :: "int \<Rightarrow> string" where
  "int_to_string i = (if i < 0 then CHR ''-'' # nat_to_string (nat (- i)) else nat_to_string (nat i))"

section \<open>Package apns: the wire codec (binary.go)\<close>

record Field =
  FieldID :: byte
  Value :: "byte list"

record Payload =
  ID :: byte
  Fields :: "Field list"

definition CommandConnect :: byte where "CommandConnect = 7"
definition CommandConnectAck :: byte where "CommandConnectAck = 8"
definition CommandFilterTopics :: byte where "CommandFilterTopics = 9"
definition CommandSendMessage :: byte where "CommandSendMessage = 10"
definition CommandSendMessageAck :: byte where "CommandSendMessageAck = 11"
definition CommandKeepAlive :: byte where "CommandKeepAlive = 12"
definition CommandKeepAliveAck :: byte where "CommandKeepAliveAck = 13"
definition CommandFilterTopicsAck :: byte where "CommandFilterTopicsAck = 14"
definition CommandSetState :: byte where "CommandSetState = 20"

text \<open>\<^verbatim>\<open>FindField\<close>: the value of the first field with the id, or nil (the empty slice).\<close>

fun FindField :: "Field list \<Rightarrow> byte \<Rightarrow> byte list" where
  "FindField [] fieldID = []"
| "FindField (f # fs) fieldID = (if FieldID f = fieldID then Value f else FindField fs fieldID)"

text \<open>
  \<^verbatim>\<open>binary.BigEndian\<close>: \<open>PutUint32\<close> and \<open>PutUint16\<close> give the bytes written, \<open>Uint32\<close> and
  \<open>Uint16\<close> read them back. The conversions \<^verbatim>\<open>uint32(n)\<close> and \<^verbatim>\<open>uint16(n)\<close> of an
  \<^verbatim>\<open>int\<close> are \<open>of_nat\<close>, which truncates.
\<close>

definition PutUint32 :: "32 word \<Rightarrow> byte list" where
  "PutUint32 v = [ucast (drop_bit 24 v), ucast (drop_bit 16 v), ucast (drop_bit 8 v), ucast v]"

definition PutUint16 :: "16 word \<Rightarrow> byte list" where
  "PutUint16 v = [ucast (drop_bit 8 v), ucast v]"

definition Uint32 :: "byte list \<Rightarrow> 32 word" where
  "Uint32 b = push_bit 24 (ucast (b ! 0)) OR push_bit 16 (ucast (b ! 1))
                OR push_bit 8 (ucast (b ! 2)) OR ucast (b ! 3)"

definition Uint16 :: "byte list \<Rightarrow> 16 word" where
  "Uint16 b = push_bit 8 (ucast (b ! 0)) OR ucast (b ! 1)"

text \<open>\<^verbatim>\<open>copy(buf[ptr:ptr+len(src)], src)\<close> for a range inside the buffer.\<close>

definition copy_at :: "byte list \<Rightarrow> nat \<Rightarrow> byte list \<Rightarrow> byte list" where
  "copy_at buf ptr src = take ptr buf @ src @ drop (ptr + length src) buf"

text \<open>The first loop of \<^verbatim>\<open>ToBytes\<close>: the total length.\<close>

fun total_length :: "Field list \<Rightarrow> nat \<Rightarrow> nat" where
  "total_length [] len = len"
| "total_length (f # fs) len = total_length fs (len + (3 + length (Value f)))"

text \<open>The second loop of \<^verbatim>\<open>ToBytes\<close>: each field is written at \<open>ptr\<close>.\<close>

fun write_fields :: "Field list \<Rightarrow> nat \<Rightarrow> byte list \<Rightarrow> byte list" where
  "write_fields [] ptr payload = payload"
| "write_fields (f # fs) ptr payload =
     (let payload = payload[ptr := FieldID f];
          payload = copy_at payload (ptr + 1) (PutUint16 (of_nat (length (Value f))));
          payload = copy_at payload (ptr + 3) (Value f)
      in write_fields fs (ptr + (3 + length (Value f))) payload)"

definition ToBytes :: "Payload \<Rightarrow> byte list" where
  "ToBytes p =
     (let len = total_length (Fields p) 5;
          payload = replicate len 0;
          payload = payload[0 := ID p];
          payload = copy_at payload 1 (PutUint32 (of_nat (len - 5)))
      in write_fields (Fields p) 5 payload)"

text \<open>
  \<^verbatim>\<open>unmarshalFieldsFromBytes\<close>: the loop over the index \<open>i\<close>. The receiver is passed in and
  returned, with the fields parsed so far appended, also when an error is returned. Both
  slice expressions are in range by the checks before them, so the loop cannot panic; the
  second component is the error returned (\<open>None\<close> for nil).
\<close>

function unmarshalFieldsFromBytes :: "Payload \<Rightarrow> byte list \<Rightarrow> nat \<Rightarrow> Payload \<times> go_error option" where
  "unmarshalFieldsFromBytes p data i =
     (if i + 3 \<le> length data then
        (let fieldLength = unat (Uint16 (take 2 (drop (i + 1) data))) in
         if i + 3 + fieldLength > length data then (p, Some (ErrorString ''invalid field length''))
         else unmarshalFieldsFromBytes
                (p\<lparr>Fields := Fields p @ [\<lparr>FieldID = data ! i, Value = take fieldLength (drop (i + 3) data)\<rparr>]\<rparr>)
                data (i + (3 + fieldLength)))
      else (p, None))"
  by pat_completeness auto
termination
  by (relation "measure (\<lambda>(p, data, i). length data - i)") auto

declare unmarshalFieldsFromBytes.simps [simp del]

text \<open>
  \<^verbatim>\<open>UnmarshalBinary\<close>. The sum \<^verbatim>\<open>5+length\<close> is a \<^verbatim>\<open>uint32\<close> and wraps; the slice
  expression \<^verbatim>\<open>data[5 : 5+length]\<close> panics when its bounds are out of range.
\<close>

definition UnmarshalBinary :: "Payload \<Rightarrow> byte list \<Rightarrow> Payload \<times> unit result" where
  "UnmarshalBinary p data =
     (if length data = 0 then (p, Err (ErrorString ''empty payload''))
      else let p = p\<lparr>ID := data ! 0\<rparr> in
        if ID p = 0 then (p, Ok ())
        else if length data < 5 then (p, Err (ErrorString ''invalid payload length''))
        else let len = Uint32 (take 4 (drop 1 data));
                 hi = unat (5 + len) in
          if hi < 5 \<or> length data < hi then (p, Panic SliceBoundsOutOfRange)
          else (case unmarshalFieldsFromBytes p (take (hi - 5) (drop 5 data)) 0 of
                  (p, None) \<Rightarrow> (p, Ok ())
                | (p, Some err) \<Rightarrow> (p, Err err)))"

text \<open>The zero value of \<^verbatim>\<open>Payload\<close>, the receiver every caller decodes into.\<close>

definition empty_Payload :: Payload where
  "empty_Payload = \<lparr>ID = 0, Fields = []\<rparr>"


section \<open>Package messaging: the decryptor (decrypt.go)\<close>

text \<open>The message of an error, \<^verbatim>\<open>err.Error()\<close>; an \<open>IDSError\<close> prints its status.\<close>

definition IDSStatus_String :: "int \<Rightarrow> string" where
  "IDSStatus_String s =
     (if s = 0 then ''success''
      else if s = 6004 then ''unauthenticated (2FA required)''
      else if s = 6014 then ''invalid credentials''
      else if s = 6030 then ''refresh credentials required''
      else if s = 6054 then ''response too large''
      else ''unknown('' @ int_to_string s @ '')'')"

fun Error :: "go_error \<Rightarrow> string" where
  "Error (ErrorString s) = s"
| "Error (WrapError s e) = s"
| "Error (IDSError c) = IDSStatus_String c"

text \<open>\<^verbatim>\<open>fmt.Errorf(prefix + "%w", err)\<close>.\<close>

definition Errorf_w :: "string \<Rightarrow> go_error \<Rightarrow> go_error" where
  "Errorf_w prefix err = WrapError (prefix @ Error err) err"

definition normalIV :: "byte list" where
  "normalIV = [0, 0, 0, 0, 0, 0, 0, 0, 0, 0, 0, 0, 0, 0, 0, 0]"

record ParsedBody =
  Tag :: byte
  Body :: "byte list"
  Signature :: "byte list"

text \<open>
  \<^verbatim>\<open>ParseBody\<close>. \<^verbatim>\<open>bodyLength\<close> is a \<^verbatim>\<open>uint16\<close>, and so is every sum it occurs in:
  \<^verbatim>\<open>3 + bodyLength + 1\<close> wraps at \<open>2 ^ 16\<close> before the conversion to \<^verbatim>\<open>int\<close>.
\<close>

definition ParseBody :: "byte list \<Rightarrow> ParsedBody result" where
  "ParseBody payload =
     (if length payload < 4 then
        Err (ErrorString (''too short payload (missing header, expected >4, got ''
                            @ nat_to_string (length payload) @ '')''))
      else
        let tag = payload ! 0;
            bodyLength = Uint16 (take 2 (drop 1 payload));
            expectedLength = unat (3 + bodyLength + 1)
        in
        if length payload < expectedLength then
          Err (ErrorString (''too short payload (missing body, expected >''
                              @ nat_to_string expectedLength @ '', got ''
                              @ nat_to_string (length payload) @ '')''))
        else if unat (3 + bodyLength) < 3 \<or> length payload < unat (3 + bodyLength) then
          Panic SliceBoundsOutOfRange
        else
          let body = take (unat (3 + bodyLength) - 3) (drop 3 payload) in
          if length payload \<le> unat (3 + bodyLength) then Panic IndexOutOfRange
          else
            let signatureLength = payload ! unat (3 + bodyLength);
                expectedLength = unat (3 + bodyLength + 1 + ucast signatureLength)
            in
            if length payload < expectedLength then
              Err (ErrorString (''too short payload (missing signature, expected ''
                                  @ nat_to_string expectedLength @ '', got ''
                                  @ nat_to_string (length payload) @ '')''))
            else if length payload < unat (3 + bodyLength + 1) then Panic SliceBoundsOutOfRange
            else Ok \<lparr>Tag = tag, Body = body,
                     Signature = drop (unat (3 + bodyLength + 1)) payload\<rparr>)"

text \<open>
  The standard library and the plist package are outside the repository. What the
  decryptor calls is a parameter: RSA-OAEP decryption with SHA-1, the AES-CTR key stream
  applied to a buffer (key, initialisation vector, input), the gzip reader and the plist
  decoder.
\<close>

record IMessagePayload =
  Text :: string
  Subject :: string
  Participants :: "string list"
  GroupID :: string
  Version :: int
  MessageUUID :: string

record crypto =
  rsa_DecryptOAEP :: "rsa_PrivateKey \<Rightarrow> byte list \<Rightarrow> go_error + byte list"
  aes_CTR :: "byte list \<Rightarrow> byte list \<Rightarrow> byte list \<Rightarrow> byte list"
  gzip_NewReader :: "byte list \<Rightarrow> go_error option"
  gzip_ReadAll :: "byte list \<Rightarrow> go_error + byte list"
  plist_Unmarshal :: "byte list \<Rightarrow> go_error + IMessagePayload"

text \<open>\<^verbatim>\<open>aes.NewCipher\<close> accepts keys of 16, 24 or 32 bytes and returns a key size error otherwise.\<close>

definition aes_NewCipher :: "byte list \<Rightarrow> go_error + byte list" where
  "aes_NewCipher key =
     (if length key = 16 \<or> length key = 24 \<or> length key = 32 then Inr key
      else Inl (ErrorString (''crypto/aes: invalid key size '' @ nat_to_string (length key))))"

text \<open>
  \<^verbatim>\<open>DecryptPairPayload\<close>. The slice \<^verbatim>\<open>decryptedEncryptionKey[:16]\<close> panics when the
  decrypted block has fewer than 16 bytes (\<^verbatim>\<open>rsa.DecryptOAEP\<close> returns the tail of its
  buffer, a slice whose capacity is its length).
\<close>

definition DecryptPairPayload :: "crypto \<Rightarrow> rsa_PrivateKey \<Rightarrow> ParsedBody \<Rightarrow> byte list result" where
  "DecryptPairPayload env privateKey body =
     (if length (Body body) < 160 then
        Err (ErrorString (''too short payload (missing encryption key, expected >160, got ''
                            @ nat_to_string (length (Body body)) @ '')''))
      else
        let encryptedEncryptionKey = take 160 (Body body);
            actualEncryptedMessage = drop 160 (Body body)
        in
        case rsa_DecryptOAEP env privateKey encryptedEncryptionKey of
          Inl err \<Rightarrow> Err (Errorf_w ''failed to decrypt encryption key: '' err)
        | Inr decryptedEncryptionKey \<Rightarrow>
            if length decryptedEncryptionKey < 16 then Panic SliceBoundsOutOfRange
            else
              case aes_NewCipher (take 16 decryptedEncryptionKey) of
                Inl err \<Rightarrow> Err (Errorf_w ''failed to create AES cipher: '' err)
              | Inr block \<Rightarrow>
                  let decryptionInput = drop 16 decryptedEncryptionKey @ actualEncryptedMessage
                  in Ok (aes_CTR env block normalIV decryptionInput))"

definition MaybeGUnzip :: "crypto \<Rightarrow> byte list \<Rightarrow> byte list result" where
  "MaybeGUnzip env data =
     (if length data < 2 \<or> data ! 0 \<noteq> 0x1f \<or> data ! 1 \<noteq> 0x8b then Ok data
      else
        case gzip_NewReader env data of
          Some err \<Rightarrow> Err (Errorf_w ''failed to create gzip reader: '' err)
        | None \<Rightarrow>
            (case gzip_ReadAll env data of
               Inl err \<Rightarrow> Err (Errorf_w ''failed to decompress: '' err)
             | Inr decompressed \<Rightarrow> Ok decompressed))"

definition DecryptMessage :: "crypto \<Rightarrow> rsa_PrivateKey \<Rightarrow> byte list \<Rightarrow> IMessagePayload result" where
  "DecryptMessage env privateKey payload =
     (case ParseBody payload of
        Err err \<Rightarrow> Err (Errorf_w ''failed to parse body: '' err)
      | Panic pn \<Rightarrow> Panic pn
      | Ok parsed \<Rightarrow>
          (case DecryptPairPayload env privateKey parsed of
             Err err \<Rightarrow> Err (Errorf_w ''failed to decrypt: '' err)
           | Panic pn \<Rightarrow> Panic pn
           | Ok decrypted \<Rightarrow>
               (case MaybeGUnzip env decrypted of
                  Err err \<Rightarrow> Err (Errorf_w ''failed to decompress: '' err)
                | Panic pn \<Rightarrow> Panic pn
                | Ok decompressed \<Rightarrow>
                    (case plist_Unmarshal env decompressed of
                       Inl err \<Rightarrow> Err (Errorf_w ''failed to unmarshal plist: '' err)
                     | Inr msg \<Rightarrow> Ok msg))))"

section \<open>Package apns: commands (src/unnamed/part_002)\<close>

definition BaseConnectionFlags :: "32 word" where "BaseConnectionFlags = 65"
definition RootConnection :: "32 word" where "RootConnection = 4"

definition ConnectionFlag_ToBytes :: "32 word \<Rightarrow> byte list" where
  "ConnectionFlag_ToBytes c = PutUint32 c"

record ConnectCommand =
  DeviceToken :: "byte list"
  State :: "byte list"
  Flags :: "32 word"
  Cert :: "byte list"
  Nonce :: "byte list"
  Signature :: "byte list"

definition ConnectCommand_ToPayload :: "ConnectCommand \<Rightarrow> Payload" where
  "ConnectCommand_ToPayload c =
     \<lparr>ID = CommandConnect,
      Fields = [\<lparr>FieldID = 1, Value = DeviceToken c\<rparr>,
                \<lparr>FieldID = 2, Value = State c\<rparr>,
                \<lparr>FieldID = 5, Value = ConnectionFlag_ToBytes (Flags c)\<rparr>,
                \<lparr>FieldID = 12, Value = Cert c\<rparr>,
                \<lparr>FieldID = 13, Value = Nonce c\<rparr>,
                \<lparr>FieldID = 14, Value = Signature c\<rparr>]\<rparr>"

record ConnectAckCommand =
  Status :: "byte list"
  Token :: "byte list"
  MaxMessageSize :: "16 word"
  Unknown5 :: "byte list"
  Capabilities :: "byte list"
  LargeMessageSize :: "16 word"
  ServerTimestamp :: "64 word"

definition zero_ConnectAckCommand :: ConnectAckCommand where
  "zero_ConnectAckCommand =
     \<lparr>Status = [], Token = [], MaxMessageSize = 0, Unknown5 = [], Capabilities = [],
      LargeMessageSize = 0, ServerTimestamp = 0\<rparr>"

definition ConnectAckCommand_FromPayload :: "ConnectAckCommand \<Rightarrow> Payload \<Rightarrow> ConnectAckCommand" where
  "ConnectAckCommand_FromPayload c p =
     (let c = c\<lparr>Status := FindField (Fields p) 1\<rparr>;
          c = c\<lparr>Token := FindField (Fields p) 3\<rparr>;
          val = FindField (Fields p) 4;
          c = (if length val \<ge> 2
               then c\<lparr>MaxMessageSize := push_bit 8 (ucast (val ! 0)) OR ucast (val ! 1)\<rparr> else c);
          c = c\<lparr>Unknown5 := FindField (Fields p) 5\<rparr>;
          c = c\<lparr>Capabilities := FindField (Fields p) 6\<rparr>;
          val = FindField (Fields p) 8;
          c = (if length val \<ge> 2
               then c\<lparr>LargeMessageSize := push_bit 8 (ucast (val ! 0)) OR ucast (val ! 1)\<rparr> else c);
          val = FindField (Fields p) 10
      in if length val \<ge> 8
         then c\<lparr>ServerTimestamp :=
                  push_bit 56 (ucast (val ! 0)) OR push_bit 48 (ucast (val ! 1)) OR
                  push_bit 40 (ucast (val ! 2)) OR push_bit 32 (ucast (val ! 3)) OR
                  push_bit 24 (ucast (val ! 4)) OR push_bit 16 (ucast (val ! 5)) OR
                  push_bit 8 (ucast (val ! 6)) OR ucast (val ! 7)\<rparr>
         else c)"

text \<open>\<^verbatim>\<open>FilterTopicsCommand\<close>: the token, then one field with id 2 per topic hash.\<close>

definition FilterTopicsCommand_ToPayload :: "byte list \<Rightarrow> byte list list \<Rightarrow> Payload" where
  "FilterTopicsCommand_ToPayload tok topics =
     \<lparr>ID = CommandFilterTopics,
      Fields = \<lparr>FieldID = 1, Value = tok\<rparr> # map (\<lambda>topic. \<lparr>FieldID = 2, Value = topic\<rparr>) topics\<rparr>"

definition SetStateCommand_ToPayload :: "byte \<Rightarrow> 32 word \<Rightarrow> Payload" where
  "SetStateCommand_ToPayload st fieldTwo =
     \<lparr>ID = CommandSetState,
      Fields = [\<lparr>FieldID = 1, Value = [st]\<rparr>,
                \<lparr>FieldID = 2, Value = [ucast (drop_bit 24 fieldTwo), ucast (drop_bit 16 fieldTwo),
                                       ucast (drop_bit 8 fieldTwo), ucast fieldTwo]\<rparr>]\<rparr>"

record IncomingSendMessageCommand =
  MessageID :: "byte list"
  Token :: "byte list"
  Topic :: "byte list"
  Payload :: "byte list"
  Expiration :: "byte list"
  Timestamp :: "byte list"
  Unknown7 :: "byte list"

definition IncomingSendMessageCommand_FromPayload :: "Payload \<Rightarrow> IncomingSendMessageCommand" where
  "IncomingSendMessageCommand_FromPayload p =
     \<lparr>MessageID = FindField (Fields p) 4,
      Token = FindField (Fields p) 1,
      Topic = FindField (Fields p) 2,
      Payload = FindField (Fields p) 3,
      Expiration = FindField (Fields p) 5,
      Timestamp = FindField (Fields p) 6,
      Unknown7 = FindField (Fields p) 7\<rparr>"

definition KeepAliveCommand_ToPayload :: Payload where
  "KeepAliveCommand_ToPayload = \<lparr>ID = CommandKeepAlive, Fields = []\<rparr>"

section \<open>Package apns: the courier connection (connection.go)\<close>

definition ErrNotConnected :: go_error where
  "ErrNotConnected = ErrorString ''not connected to APNS''"

definition ErrNoToken :: go_error where
  "ErrNoToken = ErrorString ''no push token available''"

definition bytes_to_string :: "byte list \<Rightarrow> string" where
  "bytes_to_string bs = map (\<lambda>b. char_of (unat b)) bs"

definition string_to_bytes :: "string \<Rightarrow> byte list" where
  "string_to_bytes cs = map (\<lambda>c. of_char c) cs"

text \<open>Formatting a byte slice with \<^verbatim>\<open>%x\<close>: two lower-case hexadecimal digits per byte.\<close>

definition hex_digit :: "nat \<Rightarrow> char" where
  "hex_digit d = ''0123456789abcdef'' ! d"

definition hex_string :: "byte list \<Rightarrow> string" where
  "hex_string bs = concat (map (\<lambda>b. [hex_digit (unat b div 16), hex_digit (unat b mod 16)]) bs)"

record SendMessagePayload =
  Topic :: string
  Payload :: "byte list"

text \<open>
  The socket \<^verbatim>\<open>net.Conn\<close>. \<open>inbound\<close> holds the bytes the peer sends before it closes the
  connection; \<open>write_script\<close> says what each coming write does (an exhausted script means
  success); \<open>trace\<close> records, in order, every frame read, every failed read, every
  failure to set the write deadline and every call of \<^verbatim>\<open>conn.Write\<close> with its error.
\<close>

datatype write_outcome = WriteOk | DeadlineError go_error | WriteError go_error

datatype io_event =
    EvRead Payload
  | EvReadError go_error
  | EvSetDeadlineError go_error
  | EvWrite "byte list" "go_error option"

record socket =
  inbound :: "byte list"
  write_script :: "write_outcome list"
  trace :: "io_event list"

type_synonym 'h MessageHandler = "'h \<Rightarrow> SendMessagePayload \<Rightarrow> 'h \<times> unit result"

datatype Certificate = Certificate (Raw: "byte list")

record 'h Connection =
  privateKey :: "rsa_PrivateKey option"
  deviceCert :: "Certificate option"
  token :: "byte list"
  conn :: "socket option"
  messageHandler :: "'h MessageHandler option"
  maxMessageSize :: int
  maxLargeMessageSize :: int

definition NewConnection ::
    "rsa_PrivateKey option \<Rightarrow> Certificate option \<Rightarrow> byte list \<Rightarrow> 'h Connection" where
  "NewConnection key cert tok =
     \<lparr>privateKey = key, deviceCert = cert, token = tok, conn = None, messageHandler = None,
      maxMessageSize = 4 * 1024, maxLargeMessageSize = 15 * 1024\<rparr>"

definition SetMessageHandler :: "'h Connection \<Rightarrow> 'h MessageHandler \<Rightarrow> 'h Connection" where
  "SetMessageHandler c handler = c\<lparr>messageHandler := Some handler\<rparr>"

text \<open>
  \<^verbatim>\<open>Connection.write\<close> (named \<open>conn_write\<close>, since \<open>write\<close> is a keyword): the write
  deadline is set, then the data is written.
\<close>

definition conn_write :: "'h Connection \<Rightarrow> byte list \<Rightarrow> 'h Connection \<times> go_error option" where
  "conn_write c data =
     (case conn c of
        None \<Rightarrow> (c, Some ErrNotConnected)
      | Some s \<Rightarrow>
          (case (case write_script s of [] \<Rightarrow> WriteOk | w # _ \<Rightarrow> w) of
             DeadlineError err \<Rightarrow>
               (c\<lparr>conn := Some (s\<lparr>write_script := tl (write_script s),
                                   trace := trace s @ [EvSetDeadlineError err]\<rparr>)\<rparr>, Some err)
           | WriteError err \<Rightarrow>
               (c\<lparr>conn := Some (s\<lparr>write_script := tl (write_script s),
                                   trace := trace s @ [EvWrite data (Some err)]\<rparr>)\<rparr>, Some err)
           | WriteOk \<Rightarrow>
               (c\<lparr>conn := Some (s\<lparr>write_script := tl (write_script s),
                                   trace := trace s @ [EvWrite data None]\<rparr>)\<rparr>, None)))"

text \<open>
  \<^verbatim>\<open>io.ReadFull\<close> on the inbound bytes: \<open>n\<close> bytes, or \<^verbatim>\<open>io.EOF\<close> when none is left,
  or \<^verbatim>\<open>io.ErrUnexpectedEOF\<close> when the stream ends inside the buffer.
\<close>

definition io_EOF :: go_error where "io_EOF = ErrorString ''EOF''"
definition io_ErrUnexpectedEOF :: go_error where "io_ErrUnexpectedEOF = ErrorString ''unexpected EOF''"

definition ReadFull :: "byte list \<Rightarrow> nat \<Rightarrow> (go_error + byte list) \<times> byte list" where
  "ReadFull reader n =
     (if n \<le> length reader then (Inr (take n reader), drop n reader)
      else if reader = [] then (Inl io_EOF, [])
      else (Inl io_ErrUnexpectedEOF, []))"

text \<open>\<^verbatim>\<open>UnmarshalBinaryStream\<close>: the receiver, the reader left, and the error returned.\<close>

definition UnmarshalBinaryStream :: "Payload \<Rightarrow> byte list \<Rightarrow> Payload \<times> byte list \<times> go_error option" where
  "UnmarshalBinaryStream p reader =
     (case ReadFull reader 1 of
        (Inl err, reader) \<Rightarrow> (p, reader, Some err)
      | (Inr readBuf, reader) \<Rightarrow>
          let p = p\<lparr>ID := readBuf ! 0\<rparr> in
          if ID p = 0 then (p, reader, None)
          else
            (case ReadFull reader 4 of
               (Inl err, reader) \<Rightarrow> (p, reader, Some err)
             | (Inr readBuf, reader) \<Rightarrow>
                 let len = Uint32 readBuf in
                 (case ReadFull reader (unat len) of
                    (Inl err, reader) \<Rightarrow> (p, reader, Some err)
                  | (Inr data, reader) \<Rightarrow>
                      (case unmarshalFieldsFromBytes p data 0 of (p, r) \<Rightarrow> (p, reader, r)))))"

definition readPayload :: "'h Connection \<Rightarrow> 'h Connection \<times> (go_error + Payload)" where
  "readPayload c =
     (case conn c of
        None \<Rightarrow> (c, Inl ErrNotConnected)
      | Some s \<Rightarrow>
          (case UnmarshalBinaryStream empty_Payload (inbound s) of
             (payload, reader, None) \<Rightarrow>
               (c\<lparr>conn := Some (s\<lparr>inbound := reader, trace := trace s @ [EvRead payload]\<rparr>)\<rparr>,
                Inr payload)
           | (payload, reader, Some err) \<Rightarrow>
               (c\<lparr>conn := Some (s\<lparr>inbound := reader, trace := trace s @ [EvReadError err]\<rparr>)\<rparr>,
                Inl err)))"

text \<open>
  What \<^verbatim>\<open>Connect\<close> takes from outside: the random host number, the TLS dial, the random
  nonce, SHA-1 and the PKCS#1 v1.5 signature.
\<close>

record network =
  rand_Intn :: nat
  DialContext :: "string \<Rightarrow> go_error + socket"
  rand_Read :: "go_error + byte list"
  sha1_Sum :: "byte list \<Rightarrow> byte list"
  rsa_SignPKCS1v15 :: "rsa_PrivateKey \<Rightarrow> byte list \<Rightarrow> go_error + byte list"

definition CourierHostCount :: nat where "CourierHostCount = 50"
definition CourierHostname :: string where "CourierHostname = ''courier.push.apple.com''"
definition CourierPort :: nat where "CourierPort = 5223"

text \<open>\<^verbatim>\<open>Connection.Connect\<close>: the connection afterwards and the error returned.\<close>

definition Connect :: "network \<Rightarrow> 'h Connection \<Rightarrow> 'h Connection \<times> go_error option" where
  "Connect net c =
     (case (privateKey c, deviceCert c) of
        (None, _) \<Rightarrow> (c, Some (ErrorString ''missing push certificate or key''))
      | (_, None) \<Rightarrow> (c, Some (ErrorString ''missing push certificate or key''))
      | (Some key, Some cert) \<Rightarrow>
      if length (token c) = 0 then (c, Some ErrNoToken)
      else
        let hostNum = rand_Intn net mod CourierHostCount + 1;
            host = nat_to_string hostNum @ ''-'' @ CourierHostname;
            addr = host @ '':'' @ nat_to_string CourierPort
        in
        case DialContext net addr of
          Inl err \<Rightarrow> (c, Some (Errorf_w ''failed to dial APNS: '' err))
        | Inr sock \<Rightarrow>
            let c = c\<lparr>conn := Some sock\<rparr> in
            (case rand_Read net of
               Inl err \<Rightarrow> (c, Some (Errorf_w ''failed to generate nonce: '' err))
             | Inr random \<Rightarrow>
                 let nonce = random[0 := 0];
                     sum = sha1_Sum net nonce
                 in
                 (case rsa_SignPKCS1v15 net key sum of
                    Inl err \<Rightarrow> (c, Some (Errorf_w ''failed to sign nonce: '' err))
                  | Inr signature \<Rightarrow>
                      let connectCmd =
                            \<lparr>DeviceToken = token c, State = [1],
                             Flags = BaseConnectionFlags OR RootConnection,
                             Cert = Raw cert, Nonce = nonce,
                             Signature = [0x1, 0x1] @ signature\<rparr>
                      in
                      (case conn_write c (ToBytes (ConnectCommand_ToPayload connectCmd)) of
                         (c, Some err) \<Rightarrow> (c, Some (Errorf_w ''failed to send connect command: '' err))
                       | (c, None) \<Rightarrow>
                           (case readPayload c of
                              (c, Inl err) \<Rightarrow> (c, Some (Errorf_w ''failed to read connect ack: '' err))
                            | (c, Inr payload) \<Rightarrow>
                                if ID payload \<noteq> CommandConnectAck then
                                  (c, Some (ErrorString (''unexpected response to connect: command ''
                                                          @ nat_to_string (unat (ID payload)))))
                                else
                                  let ack = ConnectAckCommand_FromPayload zero_ConnectAckCommand payload in
                                  if length (Status ack) > 0 \<and> Status ack ! 0 \<noteq> 0 then
                                    (c, Some (ErrorString (''connection rejected by APNS, status: ''
                                                            @ hex_string (Status ack))))
                                  else
                                    let c = (if length (ConnectAckCommand.Token ack) > 0
                                             then c\<lparr>token := ConnectAckCommand.Token ack\<rparr> else c);
                                        c = (if MaxMessageSize ack > 0
                                             then c\<lparr>maxMessageSize := uint (MaxMessageSize ack)\<rparr> else c);
                                        c = (if LargeMessageSize ack > 0
                                             then c\<lparr>maxLargeMessageSize := uint (LargeMessageSize ack)\<rparr> else c)
                                    in (c, None))))))"

definition Filter :: "network \<Rightarrow> 'h Connection \<Rightarrow> string list \<Rightarrow> 'h Connection \<times> go_error option" where
  "Filter net c topics =
     (if conn c = None then (c, Some ErrNotConnected)
      else
        let sha1Topics = map (\<lambda>topic. sha1_Sum net (string_to_bytes topic)) topics
        in conn_write c (ToBytes (FilterTopicsCommand_ToPayload (token c) sha1Topics)))"

definition SetState :: "'h Connection \<Rightarrow> byte \<Rightarrow> 'h Connection \<times> go_error option" where
  "SetState c st =
     (if conn c = None then (c, Some ErrNotConnected)
      else conn_write c (ToBytes (SetStateCommand_ToPayload st 0x7fffffff)))"

text \<open>
  The inbound bytes a connection has left. A successful read of a frame takes at least the
  byte of the command id from them, and a write leaves them alone: the read loop ends.
\<close>

definition remaining :: "'h Connection \<Rightarrow> nat" where
  "remaining c = (case conn c of None \<Rightarrow> 0 | Some s \<Rightarrow> length (inbound s))"

lemma ReadFull_length:
  "ReadFull r n = (Inr b, r') \<Longrightarrow> length r' = length r - n \<and> n \<le> length r"
  by (auto simp: ReadFull_def split: if_splits)

lemma UnmarshalBinaryStream_consumes:
  "UnmarshalBinaryStream p r = (p', r', None) \<Longrightarrow> length r' < length r"
  by (auto simp: UnmarshalBinaryStream_def Let_def
           split: prod.splits sum.splits if_splits dest!: ReadFull_length)

lemma readPayload_consumes:
  assumes "readPayload c = (c', Inr payload)"
  shows "remaining c' < remaining c"
proof (cases "conn c")
  case None
  then show ?thesis using assms by (simp add: readPayload_def)
next
  case (Some s)
  obtain p r e where u: "UnmarshalBinaryStream empty_Payload (inbound s) = (p, r, e)"
    by (cases "UnmarshalBinaryStream empty_Payload (inbound s)") auto
  show ?thesis
  proof (cases e)
    case None
    with u have "length r < length (inbound s)"
      by (auto dest: UnmarshalBinaryStream_consumes)
    moreover have "c' = c\<lparr>conn := Some (s\<lparr>inbound := r, trace := trace s @ [EvRead p]\<rparr>)\<rparr>"
      using assms Some u None by (auto simp: readPayload_def)
    ultimately show ?thesis using Some by (simp add: remaining_def)
  next
    case (Some err)
    then show ?thesis using assms \<open>conn c = Some s\<close> u by (simp add: readPayload_def)
  qed
qed

lemma conn_write_remaining:
  "conn_write c d = (c', e) \<Longrightarrow> remaining c' = remaining c"
  by (auto simp: conn_write_def remaining_def split: option.splits write_outcome.splits list.splits)

text \<open>
  \<^verbatim>\<open>ReadLoop\<close>. The context is the set of iterations at whose start it is found
  cancelled; \<open>n\<close> counts the iterations. The handler runs on its own state \<open>h\<close>. The loop
  returns an error, or stops with the handler's panic.
\<close>

definition context_Canceled :: go_error where
  "context_Canceled = ErrorString ''context canceled''"

function ReadLoop ::
    "(nat \<Rightarrow> bool) \<Rightarrow> nat \<Rightarrow> 'h Connection \<Rightarrow> 'h \<Rightarrow> 'h Connection \<times> 'h \<times> unit result" where
  "ReadLoop ctx n c h =
     (if ctx n then (c, h, Err context_Canceled)
      else
        case readPayload c of
          (c, Inl err) \<Rightarrow> (c, h, Err (Errorf_w ''failed to read payload: '' err))
        | (c, Inr payload) \<Rightarrow>
            if ID payload = CommandSendMessage then
              (case messageHandler c of
                 None \<Rightarrow> ReadLoop ctx (Suc n) c h
               | Some handler \<Rightarrow>
                   let msg = IncomingSendMessageCommand_FromPayload payload;
                       msgPayload = \<lparr>Topic = bytes_to_string (IncomingSendMessageCommand.Topic msg),
                                     Payload = IncomingSendMessageCommand.Payload msg\<rparr>
                   in
                   (case handler h msgPayload of
                      (h, Panic pn) \<Rightarrow> (c, h, Panic pn)
                    | (h, Err err) \<Rightarrow> ReadLoop ctx (Suc n) c h
                    | (h, Ok _) \<Rightarrow> ReadLoop ctx (Suc n) c h))
            else if ID payload = CommandKeepAlive then
              (case conn_write c (ToBytes KeepAliveCommand_ToPayload) of
                 (c, Some err) \<Rightarrow> (c, h, Err (Errorf_w ''failed to respond to keep-alive: '' err))
               | (c, None) \<Rightarrow> ReadLoop ctx (Suc n) c h)
            else if ID payload = CommandConnectAck \<or> ID payload = CommandFilterTopicsAck
                    \<or> ID payload = CommandSendMessageAck \<or> ID payload = CommandKeepAliveAck then
              ReadLoop ctx (Suc n) c h
            else ReadLoop ctx (Suc n) c h)"
  by pat_completeness auto
termination
  by (relation "measure (\<lambda>(ctx, n, c, h). remaining c)")
     (auto dest!: readPayload_consumes [OF sym] conn_write_remaining [OF sym])

declare ReadLoop.simps [simp del]

section \<open>Package config: registration data (src/unnamed/part_005)\<close>

text \<open>A \<^verbatim>\<open>time.Time\<close> is the number of nanoseconds since the Unix epoch.\<close>

type_synonym Time = int

definition Unix :: "Time \<Rightarrow> int" where
  "Unix t = t div 1000000000"

record DeviceInfo =
  HardwareVersion :: string
  SoftwareName :: string
  SoftwareVersion :: string
  SoftwareBuildID :: string
  SerialNumber :: string
  UniqueDeviceID :: string
  Hostname :: string

record RegistrationData =
  ValidationData :: "byte list"
  ValidUntil :: Time
  NacservCommit :: string
  DeviceInfo :: DeviceInfo

text \<open>\<^verbatim>\<open>IsExpired\<close> on a pointer that may be nil; \<open>now\<close> is what \<^verbatim>\<open>time.Now()\<close> returns.\<close>

definition IsExpired :: "Time \<Rightarrow> RegistrationData option \<Rightarrow> bool" where
  "IsExpired now r = (case r of None \<Rightarrow> True | Some r \<Rightarrow> ValidUntil r < now)"

section \<open>Package ids: status codes (src/unnamed/part_000) and the registration client (ids/http.go)\<close>

definition IDSStatusSuccess :: int where "IDSStatusSuccess = 0"
definition IDSStatusUnauthenticated :: int where "IDSStatusUnauthenticated = 6004"
definition IDSStatusInvalidNameOrPassword :: int where "IDSStatusInvalidNameOrPassword = 6014"
definition IDSStatusActionRefreshCredentials :: int where "IDSStatusActionRefreshCredentials = 6030"
definition IDSStatusWebTunnelServiceResponseTooLarge :: int where
  "IDSStatusWebTunnelServiceResponseTooLarge = 6054"

definition Err2FARequired :: go_error where
  "Err2FARequired = IDSError IDSStatusUnauthenticated"
definition ErrInvalidNameOrPassword :: go_error where
  "ErrInvalidNameOrPassword = IDSError IDSStatusInvalidNameOrPassword"
definition ErrActionRefreshCredentials :: go_error where
  "ErrActionRefreshCredentials = IDSError IDSStatusActionRefreshCredentials"

text \<open>
  \<^verbatim>\<open>errors.Is\<close> and \<^verbatim>\<open>errors.As\<close> for the target type \<^verbatim>\<open>IDSError\<close>: the chain of wrapped
  errors is walked. Two errors made by \<^verbatim>\<open>errors.New\<close> or \<^verbatim>\<open>fmt.Errorf\<close> are pointers
  and equal only when they are the same pointer; here they are compared by their contents,
  so \<open>errors_Is\<close> holds at least where Go's does. The method \<^verbatim>\<open>IDSError.Is\<close> compares the
  status codes.
\<close>

fun errors_Is :: "go_error \<Rightarrow> go_error \<Rightarrow> bool" where
  "errors_Is (ErrorString s) target = (ErrorString s = target)"
| "errors_Is (WrapError s e) target = (WrapError s e = target \<or> errors_Is e target)"
| "errors_Is (IDSError c) target = (IDSError c = target)"

fun errors_As_IDSError :: "go_error \<Rightarrow> int option" where
  "errors_As_IDSError (ErrorString s) = None"
| "errors_As_IDSError (WrapError s e) = errors_As_IDSError e"
| "errors_As_IDSError (IDSError c) = Some c"

text \<open>
  The registration response. Of \<^verbatim>\<open>RegisterRespServiceUser\<close> the fields \<^verbatim>\<open>URIs\<close> and
  \<^verbatim>\<open>Alert\<close>, which no function of the repository reads, are left out. A \<^verbatim>\<open>Cert\<close> that is
  nil is \<open>None\<close>.
\<close>

record RegisterRespServiceUser =
  UserID :: string
  Cert :: "byte list option"
  Status :: int

record RegisterRespService =
  Service :: string
  Users :: "RegisterRespServiceUser list"
  Status :: int

record RegisterResp =
  Message :: string
  Status :: int
  Services :: "RegisterRespService list"
  RetryInterval :: int

text \<open>
  An HTTP response: the status code and what \<^verbatim>\<open>io.ReadAll\<close> returns for its body (the
  bytes read and the error).
\<close>

record http_Response =
  StatusCode :: nat
  BodyBytes :: "byte list"
  BodyError :: "go_error option"

datatype ecdsa_PrivateKey = ECDSAPrivateKey nat

text \<open>
  What the registration client and the handshake take from outside: the plist encoding
  of the request built by \<^verbatim>\<open>buildRegisterRequest\<close> (the request document itself is not
  modelled), the construction of the HTTP request, SHA-1, the signature, the HTTP round
  trip, the plist decoding of the response, key generation (the calls of
  \<^verbatim>\<open>rsa.GenerateKey\<close> are numbered from 0, and take the key size), the device UUID and the
  X.509 parser.
\<close>

record ids_world =
  plist_Marshal :: "go_error + byte list"
  http_NewRequest :: "go_error option"
  sha1 :: "byte list \<Rightarrow> byte list"
  SignPKCS1v15 :: "rsa_PrivateKey \<Rightarrow> byte list \<Rightarrow> go_error + byte list"
  client_Do :: "go_error + http_Response"
  plist_Unmarshal_RegisterResp :: "byte list \<Rightarrow> go_error + RegisterResp"
  ecdsa_GenerateKey :: "go_error + ecdsa_PrivateKey"
  rsa_GenerateKey :: "nat \<Rightarrow> nat \<Rightarrow> go_error + rsa_PrivateKey"
  uuid_New :: "byte list"
  x509_ParseCertificate :: "byte list \<Rightarrow> go_error + Certificate"

definition idsRegisterURL :: string where
  "idsRegisterURL = ''https://identity.ess.apple.com/WebObjects/TDIdentityService.woa/wa/register''"

definition createSigningPayload :: "string \<Rightarrow> string \<Rightarrow> byte list \<Rightarrow> byte list" where
  "createSigningPayload method url body =
     string_to_bytes method @ [10] @ string_to_bytes url @ [10] @ body"

text \<open>\<^verbatim>\<open>signRequest\<close>: the error returned; the headers it sets are not part of any result.\<close>

definition signRequest :: "ids_world \<Rightarrow> byte list \<Rightarrow> rsa_PrivateKey \<Rightarrow> go_error option" where
  "signRequest w body pushKey =
     (let signingPayload = createSigningPayload ''POST'' idsRegisterURL body;
          hashed = sha1 w signingPayload
      in case SignPKCS1v15 w pushKey hashed of
           Inl err \<Rightarrow> Some (Errorf_w ''failed to sign payload: '' err)
         | Inr signature \<Rightarrow> None)"

definition Register :: "ids_world \<Rightarrow> rsa_PrivateKey \<Rightarrow> RegisterResp result" where
  "Register w pushKey =
     (case plist_Marshal w of
        Inl err \<Rightarrow> Err (Errorf_w ''failed to marshal register request: '' err)
      | Inr body \<Rightarrow>
     (case http_NewRequest w of
        Some err \<Rightarrow> Err (Errorf_w ''failed to create HTTP request: '' err)
      | None \<Rightarrow>
     (case signRequest w body pushKey of
        Some err \<Rightarrow> Err (Errorf_w ''failed to sign request: '' err)
      | None \<Rightarrow>
     (case client_Do w of
        Inl err \<Rightarrow> Err (Errorf_w ''failed to send register request: '' err)
      | Inr resp \<Rightarrow>
          if StatusCode resp \<noteq> 200 then
            Err (ErrorString (''register request failed with status ''
                                @ nat_to_string (StatusCode resp) @ '': ''
                                @ bytes_to_string (BodyBytes resp)))
          else
            (case BodyError resp of
               Some err \<Rightarrow> Err (Errorf_w ''failed to read response body: '' err)
             | None \<Rightarrow>
                 (case plist_Unmarshal_RegisterResp w (BodyBytes resp) of
                    Inl err \<Rightarrow> Err (Errorf_w ''failed to unmarshal register response: '' err)
                  | Inr registerResp \<Rightarrow>
                      if RegisterResp.Status registerResp \<noteq> 0 then
                        Err (ErrorString (''registration failed with status ''
                                            @ int_to_string (RegisterResp.Status registerResp) @ '': ''
                                            @ Message registerResp))
                      else Ok registerResp))))))"

text \<open>
  \<^verbatim>\<open>ids.Config\<close>, with the fields the handshake sets. The map \<^verbatim>\<open>AuthIDCertPairs\<close> holds,
  per profile id, the identity certificate (the other fields of \<^verbatim>\<open>AuthIDCertPair\<close> keep
  their zero values).
\<close>

record Config =
  ProfileID :: string
  AuthPrivateKey :: "rsa_PrivateKey option"
  AuthIDCertPairs :: "string \<rightharpoonup> Certificate"
  PushKey :: "rsa_PrivateKey option"
  IDSEncryptionKey :: "rsa_PrivateKey option"
  IDSSigningKey :: "ecdsa_PrivateKey option"
  DeviceUUID :: "byte list"
  HardwareVersion :: string
  SoftwareName :: string
  SoftwareVersion :: string
  SoftwareBuildID :: string

section \<open>Package messaging: the handshake (handshake.go, handshake_real.go)\<close>

definition ErrNotImplemented :: go_error where
  "ErrNotImplemented = ErrorString ''not implemented''"
definition ErrRegistrationExpired :: go_error where
  "ErrRegistrationExpired = ErrorString ''registration expired''"
definition ErrInvalidRegistrationData :: go_error where
  "ErrInvalidRegistrationData = ErrorString ''registration data missing required fields''"
definition ErrHandshakeNotImplemented :: go_error where
  "ErrHandshakeNotImplemented = ErrorString ''handshake not implemented''"

record 'h handshakeState =
  ValidationData :: "byte list"
  DeviceInfo :: DeviceInfo
  IDSConfig :: "Config option"
  APNSConn :: "'h Connection option"

datatype Handshaker = DefaultHandshaker | NacIDSHandshaker | RealHandshaker

definition DefaultHandshaker_Handshake :: "RegistrationData option \<Rightarrow> 'h handshakeState result" where
  "DefaultHandshaker_Handshake reg =
     (case reg of
        None \<Rightarrow> Err ErrInvalidRegistrationData
      | Some r \<Rightarrow>
          if length (RegistrationData.ValidationData r) = 0 then Err ErrInvalidRegistrationData
          else Ok \<lparr>ValidationData = RegistrationData.ValidationData r,
                   DeviceInfo = RegistrationData.DeviceInfo r,
                   IDSConfig = None, APNSConn = None\<rparr>)"

definition NacIDSHandshaker_Handshake :: "RegistrationData option \<Rightarrow> 'h handshakeState result" where
  "NacIDSHandshaker_Handshake reg =
     Err (WrapError (Error ErrHandshakeNotImplemented @ '': NAC/IDS flow not wired'')
            ErrHandshakeNotImplemented)"

text \<open>\<^verbatim>\<open>RealHandshaker.Handshake\<close>.\<close>

definition RealHandshaker_Handshake ::
    "ids_world \<Rightarrow> RegistrationData option \<Rightarrow> 'h handshakeState result" where
  "RealHandshaker_Handshake w reg =
     (case reg of
        None \<Rightarrow> Err ErrInvalidRegistrationData
      | Some r \<Rightarrow>
     if length (RegistrationData.ValidationData r) = 0 then Err ErrInvalidRegistrationData
     else
     (case ecdsa_GenerateKey w of
        Inl err \<Rightarrow> Err (Errorf_w ''failed to generate IDS signing key: '' err)
      | Inr idsSigningKey \<Rightarrow>
     (case rsa_GenerateKey w 0 1280 of
        Inl err \<Rightarrow> Err (Errorf_w ''failed to generate IDS encryption key: '' err)
      | Inr idsEncryptionKey \<Rightarrow>
     (case rsa_GenerateKey w 1 1280 of
        Inl err \<Rightarrow> Err (Errorf_w ''failed to generate push key: '' err)
      | Inr pushKey \<Rightarrow>
     (case rsa_GenerateKey w 2 2048 of
        Inl err \<Rightarrow> Err (Errorf_w ''failed to generate auth private key: '' err)
      | Inr authPrivateKey \<Rightarrow>
     let deviceUUID = uuid_New w;
         info = RegistrationData.DeviceInfo r;
         idsConfig =
           \<lparr>ProfileID = [],
            AuthPrivateKey = Some authPrivateKey,
            AuthIDCertPairs = Map.empty,
            PushKey = Some pushKey,
            IDSEncryptionKey = Some idsEncryptionKey,
            IDSSigningKey = Some idsSigningKey,
            DeviceUUID = deviceUUID,
            HardwareVersion =
              (if DeviceInfo.HardwareVersion info = [] then ''MacBookPro18,1''
               else DeviceInfo.HardwareVersion info),
            SoftwareName =
              (if DeviceInfo.SoftwareName info = [] then ''macOS''
               else DeviceInfo.SoftwareName info),
            SoftwareVersion =
              (if DeviceInfo.SoftwareVersion info = [] then ''13.4.1''
               else DeviceInfo.SoftwareVersion info),
            SoftwareBuildID =
              (if DeviceInfo.SoftwareBuildID info = [] then ''22F82''
               else DeviceInfo.SoftwareBuildID info)\<rparr>
     in
     (case Register w pushKey of
        Err err \<Rightarrow> Err (Errorf_w ''IDS registration failed: '' err)
      | Panic pn \<Rightarrow> Panic pn
      | Ok registerResp \<Rightarrow>
          (case Services registerResp of
             [] \<Rightarrow> Err (ErrorString ''no services in registration response'')
           | service # _ \<Rightarrow>
               (case Users service of
                  [] \<Rightarrow> Err (ErrorString ''no users in registration response'')
                | user # _ \<Rightarrow>
                    (case Cert user of
                       None \<Rightarrow> Err (ErrorString ''no ID certificate in registration response'')
                     | Some der \<Rightarrow>
                         (case x509_ParseCertificate w der of
                            Inl err \<Rightarrow> Err (Errorf_w ''failed to parse ID certificate: '' err)
                          | Inr idCert \<Rightarrow>
                              let pushToken = [];
                                  idsConfig = idsConfig
                                    \<lparr>AuthIDCertPairs := (AuthIDCertPairs idsConfig)(UserID user \<mapsto> idCert),
                                     ProfileID := UserID user\<rparr>;
                                  apnsConn = NewConnection (Some pushKey) None pushToken
                              in Ok \<lparr>ValidationData = RegistrationData.ValidationData r,
                                      DeviceInfo = RegistrationData.DeviceInfo r,
                                      IDSConfig = Some idsConfig,
                                      APNSConn = Some apnsConn\<rparr>))))))))))"

definition Handshake ::
    "ids_world \<Rightarrow> Handshaker \<Rightarrow> RegistrationData option \<Rightarrow> 'h handshakeState result" where
  "Handshake w hs reg =
     (case hs of
        DefaultHandshaker \<Rightarrow> DefaultHandshaker_Handshake reg
      | NacIDSHandshaker \<Rightarrow> NacIDSHandshaker_Handshake reg
      | RealHandshaker \<Rightarrow> RealHandshaker_Handshake w reg)"

section \<open>Package messaging: the session (src/unnamed/part_004)\<close>

text \<open>
  A Go channel: the nil channel, or a channel with its capacity and the messages buffered.
  A \<^verbatim>\<open>select\<close> with a \<^verbatim>\<open>default\<close> branch never blocks: a send succeeds when the buffer
  has room, a receive when it holds a message; on the nil channel neither ever does.
\<close>

datatype 'a chan = NilChan | Chan nat "'a list"

fun try_send :: "'a chan \<Rightarrow> 'a \<Rightarrow> 'a chan \<times> bool" where
  "try_send NilChan m = (NilChan, False)"
| "try_send (Chan cap buf) m =
     (if length buf < cap then (Chan cap (buf @ [m]), True) else (Chan cap buf, False))"

record Message =
  ID :: string
  Chat :: string
  Sender :: string
  Text :: string
  Timestamp :: Time
  Service :: string

text \<open>
  The session. The store is the map of the last-seen times; the fields of the read loop's
  context are left out. The handler bound to the connection works on the message channel.
  The channel carries pointers to messages; every send of the repository sends a pointer
  that is not nil, so the channel is one of messages and the test for nil in
  \<^verbatim>\<open>FetchMessages\<close> has no branch here.
\<close>

record Session =
  registration :: "RegistrationData option"
  store :: "string \<rightharpoonup> Time"
  state :: "Message chan handshakeState option"
  handshaker :: "Handshaker option"
  messageChan :: "Message chan"

text \<open>
  \<^verbatim>\<open>messaging.Connect\<close> (named \<open>messaging_Connect\<close>, beside \<open>Connect\<close> of the courier
  connection). The session literal sets the registration, the store and the handshaker;
  every other field has its zero value: no state, and the nil channel.
\<close>

definition messaging_Connect ::
    "Time \<Rightarrow> RegistrationData option \<Rightarrow> (string \<rightharpoonup> Time) option \<Rightarrow> Session result" where
  "messaging_Connect now reg st =
     (case reg of
        None \<Rightarrow> Err (ErrorString ''registration data is nil'')
      | Some r \<Rightarrow>
          if length (RegistrationData.ValidationData r) = 0 then Err ErrInvalidRegistrationData
          else if IsExpired now reg then Err ErrRegistrationExpired
          else
            let st = (case st of None \<Rightarrow> Map.empty | Some m \<Rightarrow> m)
            in Ok \<lparr>registration = reg, store = st, state = None,
                    handshaker = Some RealHandshaker, messageChan = NilChan\<rparr>)"

definition ensureHandshake :: "ids_world \<Rightarrow> Session \<Rightarrow> Session \<times> unit result" where
  "ensureHandshake w s =
     (if state s \<noteq> None then (s, Ok ())
      else
        case handshaker s of
          None \<Rightarrow> (s, Err ErrHandshakeNotImplemented)
        | Some hs \<Rightarrow>
            (case Handshake w hs (registration s) of
               Err err \<Rightarrow> (s, Err err)
             | Panic pn \<Rightarrow> (s, Panic pn)
             | Ok hstate \<Rightarrow> (s\<lparr>state := Some hstate\<rparr>, Ok ())))"

text \<open>
  \<^verbatim>\<open>handleAPNSMessage\<close>; \<open>now\<close> is what \<^verbatim>\<open>time.Now()\<close> returns during the call. Its first
  test asks for the encryption key of the handshake state.
\<close>

definition encryption_key :: "Session \<Rightarrow> rsa_PrivateKey option" where
  "encryption_key s =
     (case state s of
        None \<Rightarrow> None
      | Some hstate \<Rightarrow> (case IDSConfig hstate of None \<Rightarrow> None | Some cfg \<Rightarrow> IDSEncryptionKey cfg))"

definition handleAPNSMessage ::
    "crypto \<Rightarrow> Time \<Rightarrow> Session \<Rightarrow> SendMessagePayload \<Rightarrow> Session \<times> unit result" where
  "handleAPNSMessage env now s payload =
     (case encryption_key s of
        None \<Rightarrow>
          let msg = \<lparr>ID = ''msg-'' @ int_to_string (Unix now),
                     Chat = ''unknown-chat'',
                     Sender = ''unknown-sender'',
                     Text = ''[Encrypted] '' @ nat_to_string (length (Payload payload))
                              @ '' bytes from '' @ Topic payload,
                     Timestamp = now,
                     Service = []\<rparr>
          in (case try_send (messageChan s) msg of
                (ch, True) \<Rightarrow> (s\<lparr>messageChan := ch\<rparr>, Ok ())
              | (ch, False) \<Rightarrow> (s, Err (ErrorString ''message channel full'')))
      | Some key \<Rightarrow>
          (case DecryptMessage env key (Payload payload) of
             Panic pn \<Rightarrow> (s, Panic pn)
           | Err err \<Rightarrow>
               let msg = \<lparr>ID = ''msg-'' @ int_to_string (Unix now),
                          Chat = ''unknown-chat'',
                          Sender = ''unknown-sender'',
                          Text = ''[Decrypt failed: '' @ Error err @ ''] ''
                                   @ nat_to_string (length (Payload payload)) @ '' bytes'',
                          Timestamp = now,
                          Service = []\<rparr>
               in (case try_send (messageChan s) msg of
                     (ch, True) \<Rightarrow> (s\<lparr>messageChan := ch\<rparr>, Err (Errorf_w ''decryption failed: '' err))
                   | (ch, False) \<Rightarrow> (s, Err (ErrorString ''message channel full'')))
           | Ok imsg \<Rightarrow>
               let chat = (if GroupID imsg \<noteq> [] then GroupID imsg
                           else if length (Participants imsg) > 0 then Participants imsg ! 0
                           else ''direct'');
                   sender = (if length (Participants imsg) > 0 then Participants imsg ! 0
                             else ''unknown'');
                   msgID = (if MessageUUID imsg = [] then ''msg-'' @ int_to_string (Unix now)
                            else MessageUUID imsg);
                   msg = \<lparr>ID = msgID, Chat = chat, Sender = sender,
                          Text = IMessagePayload.Text imsg, Timestamp = now, Service = []\<rparr>
               in (case try_send (messageChan s) msg of
                     (ch, True) \<Rightarrow> (s\<lparr>messageChan := ch\<rparr>, Ok ())
                   | (ch, False) \<Rightarrow> (s, Err (ErrorString ''message channel full'')))))"



section \<open>Auxiliary notions for the statements\<close>

text \<open>The bytes \<^verbatim>\<open>ToBytes\<close> writes for one field: id, two length bytes, value.\<close>

definition field_bytes :: "Field \<Rightarrow> byte list" where
  "field_bytes f = FieldID f # PutUint16 (of_nat (length (Value f))) @ Value f"


text \<open>
  What the dispatch loop may add to the trace of a socket: a keep-alive frame read is
  followed at once by the write of the five bytes \<open>0C 00 00 00 00\<close> (or by the failure to
  set the deadline for it), the trace goes on only after a write that succeeded, no other
  write occurs, and nothing follows a failed read.
\<close>

fun keepalives_answered :: "io_event list \<Rightarrow> bool" where
  "keepalives_answered [] = True"
| "keepalives_answered (EvRead p # evs) =
     (if Payload.ID p = CommandKeepAlive then
        (case evs of
           [] \<Rightarrow> False
         | EvWrite data None # evs' \<Rightarrow> data = [12, 0, 0, 0, 0] \<and> keepalives_answered evs'
         | EvWrite data (Some err) # evs' \<Rightarrow> data = [12, 0, 0, 0, 0] \<and> evs' = []
         | EvSetDeadlineError err # evs' \<Rightarrow> evs' = []
         | ev # evs' \<Rightarrow> False)
      else keepalives_answered evs)"
| "keepalives_answered (EvReadError err # evs) = (evs = [])"
| "keepalives_answered (EvSetDeadlineError err # evs) = False"
| "keepalives_answered (EvWrite data err # evs) = False"


section \<open>Example inputs\<close>

text \<open>
  A stand-in for the cryptography, to run the decryptor on concrete inputs: the block of
  160 bytes \<open>01\<close> decrypts to a 16-byte key and two more bytes, the block of 160 bytes \<open>02\<close>
  to three bytes, every other block is rejected; the key stream is the constant \<open>5A\<close>.
\<close>

definition example_crypto :: crypto where
  "example_crypto =
     \<lparr>rsa_DecryptOAEP = (\<lambda>key block.
          if block = replicate 160 1 then Inr (replicate 16 7 @ [5, 6])
          else if block = replicate 160 2 then Inr [1, 2, 3]
          else Inl (ErrorString ''crypto/rsa: decryption error'')),
      aes_CTR = (\<lambda>key iv input. map (\<lambda>b. b XOR 90) input),
      gzip_NewReader = (\<lambda>data. None),
      gzip_ReadAll = (\<lambda>data. Inr data),
      plist_Unmarshal = (\<lambda>data. Inl (ErrorString ''plist: type mismatch''))\<rparr>"


text \<open>A registration that is valid until time 100, and one without validation data.\<close>

definition example_device :: DeviceInfo where
  "example_device =
     \<lparr>DeviceInfo.HardwareVersion = ''MacBookPro18,1'', DeviceInfo.SoftwareName = ''macOS'',
      DeviceInfo.SoftwareVersion = ''13.4.1'', DeviceInfo.SoftwareBuildID = ''22F82'',
      SerialNumber = ''C02'', UniqueDeviceID = [], Hostname = ''mac''\<rparr>"

definition example_registration :: RegistrationData where
  "example_registration =
     \<lparr>RegistrationData.ValidationData = [1, 2, 3], ValidUntil = 100, NacservCommit = ''abc'',
      RegistrationData.DeviceInfo = example_device\<rparr>"

text \<open>
  A world in which key generation and the registration succeed: the response names one
  service with one user and a certificate. In the second world the response carries the
  status 6004; in the third the transport fails.
\<close>

definition example_response :: RegisterResp where
  "example_response =
     \<lparr>Message = [], Status = 0,
      Services = [\<lparr>RegisterRespService.Service = ''com.apple.madrid'',
                   Users = [\<lparr>UserID = ''P:1'', Cert = Some [48, 130],
                             RegisterRespServiceUser.Status = 0\<rparr>],
                   RegisterRespService.Status = 0\<rparr>],
      RetryInterval = 0\<rparr>"

definition example_world :: ids_world where
  "example_world =
     \<lparr>plist_Marshal = Inr [60, 63],
      http_NewRequest = None,
      sha1 = (\<lambda>data. take 20 (data @ replicate 20 0)),
      SignPKCS1v15 = (\<lambda>key hashed. Inr hashed),
      client_Do = Inr \<lparr>StatusCode = 200, BodyBytes = [60], BodyError = None\<rparr>,
      plist_Unmarshal_RegisterResp = (\<lambda>body. Inr example_response),
      ecdsa_GenerateKey = Inr (ECDSAPrivateKey 1),
      rsa_GenerateKey = (\<lambda>i bits. Inr (RSAPrivateKey (i + 1))),
      uuid_New = [1, 2, 3, 4],
      x509_ParseCertificate = (\<lambda>der. Inr (Certificate der))\<rparr>"

definition example_world_2fa :: ids_world where
  "example_world_2fa =
     example_world\<lparr>plist_Unmarshal_RegisterResp :=
       (\<lambda>body. Inr \<lparr>Message = ''authentication required'', Status = 6004, Services = [],
                      RetryInterval = 0\<rparr>)\<rparr>"

text \<open>
  A courier that accepts the TLS dial and has a connect-ack ready, with the status 0 and
  the token \<open>AB CD\<close>; and a socket on which one keep-alive frame arrives before the peer
  closes.
\<close>

definition example_network :: network where
  "example_network =
     \<lparr>rand_Intn = 6,
      DialContext = (\<lambda>addr. Inr \<lparr>inbound = [8, 0, 0, 0, 9, 1, 0, 1, 0, 3, 0, 2, 171, 205],
                                   write_script = [], trace = []\<rparr>),
      rand_Read = Inr (replicate 20 255),
      sha1_Sum = (\<lambda>data. take 20 (data @ replicate 20 0)),
      rsa_SignPKCS1v15 = (\<lambda>key hashed. Inr hashed)\<rparr>"

definition keepalive_socket :: socket where
  "keepalive_socket = \<lparr>inbound = [12, 0, 0, 0, 0], write_script = [], trace = []\<rparr>"

definition keepalive_connection :: "unit Connection" where
  "keepalive_connection =
     (NewConnection (Some (RSAPrivateKey 2)) None [])\<lparr>conn := Some keepalive_socket\<rparr>"


text \<open>
  Three more worlds: the HTTP round trip fails; the response has the status 0 and no
  service; the response has one service and one user, without a certificate.
\<close>

definition example_world_offline :: ids_world where
  "example_world_offline =
     example_world\<lparr>client_Do := Inl (ErrorString ''connection refused'')\<rparr>"

definition example_world_no_services :: ids_world where
  "example_world_no_services =
     example_world\<lparr>plist_Unmarshal_RegisterResp :=
       (\<lambda>body. Inr \<lparr>Message = [], Status = 0, Services = [], RetryInterval = 0\<rparr>)\<rparr>"

definition example_world_no_cert :: ids_world where
  "example_world_no_cert =
     example_world\<lparr>plist_Unmarshal_RegisterResp :=
       (\<lambda>body. Inr \<lparr>Message = [], Status = 0,
                      Services = [\<lparr>RegisterRespService.Service = ''com.apple.madrid'',
                                   Users = [\<lparr>UserID = ''P:1'', Cert = None,
                                             RegisterRespServiceUser.Status = 0\<rparr>],
                                   RegisterRespService.Status = 0\<rparr>],
                      RetryInterval = 0\<rparr>)\<rparr>"





text \<open>
  A world whose response has the status 0 at the top and the status 6004 on its user.
\<close>

definition example_response_user_status :: RegisterResp where
  "example_response_user_status =
     \<lparr>Message = [], Status = 0,
      Services = [\<lparr>RegisterRespService.Service = ''com.apple.madrid'',
                   Users = [\<lparr>UserID = ''P:1'', Cert = Some [48, 130],
                             RegisterRespServiceUser.Status = 6004\<rparr>],
                   RegisterRespService.Status = 6004\<rparr>],
      RetryInterval = 0\<rparr>"

definition example_world_user_status :: ids_world where
  "example_world_user_status =
     example_world\<lparr>plist_Unmarshal_RegisterResp := (\<lambda>body. Inr example_response_user_status)\<rparr>"

section \<open>The wire codec: encoding as a concatenation, decoding of an encoding\<close>

text \<open>
  Reading back what was put: the big-endian integers, then the whole encoding, which is the
  command id, the length of the rest and the fields one after the other.
\<close>

lemma Uint16_PutUint16: "Uint16 (PutUint16 w) = w"
  unfolding Uint16_def PutUint16_def
  by (rule bit_word_eqI) (auto simp: bit_simps)

lemma Uint32_PutUint32: "Uint32 (PutUint32 w) = w"
  unfolding Uint32_def PutUint32_def
proof (rule bit_word_eqI, goal_cases)
  case (1 n)
  then consider "n < 8" | "8 \<le> n" "n < 16" | "16 \<le> n" "n < 24" | "24 \<le> n" "n < 32"
    by fastforce
  then show ?case
    by cases (auto simp: bit_simps)
qed

lemma length_PutUint16 [simp]: "length (PutUint16 w) = 2"
  by (simp add: PutUint16_def)

lemma length_PutUint32 [simp]: "length (PutUint32 w) = 4"
  by (simp add: PutUint32_def)

lemma length_field_bytes [simp]: "length (field_bytes f) = 3 + length (Value f)"
  by (simp add: field_bytes_def)

lemma total_length_sum: "total_length fs n = n + length (concat (map field_bytes fs))"
  by (induction fs arbitrary: n) auto

lemma write_field_step:
  assumes "ptr + 3 + length v \<le> length buf"
  shows "copy_at (copy_at (buf[ptr := a]) (ptr + 1) (PutUint16 w)) (ptr + 3) v
         = take ptr buf @ (a # PutUint16 w @ v) @ drop (ptr + 3 + length v) buf"
proof -
  have 1: "buf[ptr := a] = take ptr buf @ a # drop (Suc ptr) buf"
    using assms by (simp add: upd_conv_take_nth_drop)
  have 2: "copy_at (buf[ptr := a]) (ptr + 1) (PutUint16 w)
           = take ptr buf @ a # PutUint16 w @ drop (ptr + 3) buf"
    using assms by (simp only: 1) (simp add: copy_at_def min_def numeral_3_eq_3)
  show ?thesis
    using assms by (simp only: 2) (simp add: copy_at_def min_def numeral_3_eq_3 add.commute)
qed

lemma write_fields_concat:
  "length buf = total_length fs ptr \<Longrightarrow>
   write_fields fs ptr buf = take ptr buf @ concat (map field_bytes fs)"
proof (induction fs arbitrary: ptr buf)
  case Nil
  then show ?case by simp
next
  case (Cons f fs)
  let ?n = "length (Value f)"
  let ?buf' = "take ptr buf @ field_bytes f @ drop (ptr + 3 + ?n) buf"
  have len: "ptr + 3 + ?n \<le> length buf"
    using Cons.prems by (simp add: total_length_sum)
  have step: "copy_at (copy_at (buf[ptr := FieldID f]) (ptr + 1) (PutUint16 (of_nat ?n)))
                (ptr + 3) (Value f) = ?buf'"
    using write_field_step [OF len] by (simp add: field_bytes_def)
  have len': "length ?buf' = total_length fs (ptr + (3 + ?n))"
    using Cons.prems len by (simp add: total_length_sum)
  have "write_fields (f # fs) ptr buf = write_fields fs (ptr + (3 + ?n)) ?buf'"
    by (simp only: write_fields.simps Let_def step)
  also have "\<dots> = take (ptr + (3 + ?n)) ?buf' @ concat (map field_bytes fs)"
    by (rule Cons.IH [OF len'])
  also have "take (ptr + (3 + ?n)) ?buf' = take ptr buf @ field_bytes f"
    using len by (simp add: min_def)
  finally show ?case by simp
qed

lemma ToBytes_concat:
  "ToBytes p = Payload.ID p # PutUint32 (of_nat (length (concat (map field_bytes (Fields p)))))
                 @ concat (map field_bytes (Fields p))"
proof -
  let ?body = "concat (map field_bytes (Fields p))"
  let ?len = "total_length (Fields p) 5"
  let ?buf = "copy_at ((replicate ?len 0)[0 := Payload.ID p]) 1 (PutUint32 (of_nat (?len - 5)))"
  have len: "?len = 5 + length ?body" by (simp add: total_length_sum)
  have r: "replicate ?len (0::byte) = 0 # replicate 4 0 @ replicate (length ?body) 0"
    by (simp only: len) (simp add: eval_nat_numeral)
  have b: "?buf = Payload.ID p # PutUint32 (of_nat (length ?body)) @ replicate (length ?body) 0"
    by (simp only: r) (simp add: copy_at_def len)
  have l: "length ?buf = ?len"
    by (simp only: b) (simp add: len)
  have t: "take 5 ?buf = Payload.ID p # PutUint32 (of_nat (length ?body))"
    by (simp only: b) simp
  have "ToBytes p = write_fields (Fields p) 5 ?buf"
    by (simp add: ToBytes_def Let_def)
  also have "\<dots> = take 5 ?buf @ ?body"
    by (rule write_fields_concat [OF l])
  finally have "ToBytes p = take 5 ?buf @ ?body" .
  then show ?thesis unfolding t by simp
qed

lemma unat_Uint16_PutUint16: "n < 65536 \<Longrightarrow> unat (Uint16 (PutUint16 (of_nat n))) = n"
  by (simp add: Uint16_PutUint16 unat_of_nat)

lemma unmarshal_fields_concat:
  "\<forall>f \<in> set fs. length (Value f) < 65536 \<Longrightarrow>
   unmarshalFieldsFromBytes p (pre @ concat (map field_bytes fs)) (length pre)
     = (p\<lparr>Fields := Fields p @ fs\<rparr>, None)"
proof (induction fs arbitrary: p pre)
  case Nil
  then show ?case by (simp add: unmarshalFieldsFromBytes.simps)
next
  case (Cons f fs)
  let ?n = "length (Value f)"
  let ?rest = "concat (map field_bytes fs)"
  let ?data = "pre @ concat (map field_bytes (f # fs))"
  have n: "?n < 65536" using Cons.prems by simp
  have data: "?data = pre @ FieldID f # PutUint16 (of_nat ?n) @ Value f @ ?rest"
    by (simp add: field_bytes_def)
  have u: "unat (Uint16 (take 2 (drop (length pre + 1) ?data))) = ?n"
    by (simp only: data) (simp add: unat_Uint16_PutUint16 n)
  have v: "take ?n (drop (length pre + 3) ?data) = Value f"
    by (simp only: data) simp
  have i: "?data ! length pre = FieldID f"
    by (simp only: data) simp
  have l: "length pre + 3 + ?n \<le> length ?data"
    by simp
  have f: "\<lparr>FieldID = FieldID f, Value = Value f\<rparr> = f"
    by simp
  have "unmarshalFieldsFromBytes p ?data (length pre)
        = unmarshalFieldsFromBytes (p\<lparr>Fields := Fields p @ [f]\<rparr>) ?data (length pre + (3 + ?n))"
    using l by (subst unmarshalFieldsFromBytes.simps) (simp only: u v i f Let_def, simp)
  also have "?data = (pre @ field_bytes f) @ ?rest" by simp
  also have "length pre + (3 + ?n) = length (pre @ field_bytes f)" by simp
  also have "unmarshalFieldsFromBytes (p\<lparr>Fields := Fields p @ [f]\<rparr>)
               ((pre @ field_bytes f) @ ?rest) (length (pre @ field_bytes f))
             = (p\<lparr>Fields := Fields p @ [f]\<rparr>\<lparr>Fields := Fields (p\<lparr>Fields := Fields p @ [f]\<rparr>) @ fs\<rparr>, None)"
    using Cons.prems by (intro Cons.IH) simp
  finally show ?case by simp
qed

lemma UnmarshalBinary_ToBytes:
  assumes "Payload.ID p \<noteq> 0"
    and "\<forall>f \<in> set (Fields p). length (Value f) < 65536"
    and "total_length (Fields p) 5 < 2 ^ 32"
  shows "UnmarshalBinary empty_Payload (ToBytes p) = (p, Ok ())"
proof -
  let ?body = "concat (map field_bytes (Fields p))"
  let ?w = "of_nat (length ?body) :: 32 word"
  have len: "5 + length ?body < 2 ^ 32" using assms(3) by (simp add: total_length_sum)
  have u: "unat (5 + ?w) = 5 + length ?body"
    using len by (simp add: unat_word_ariths unat_of_nat mod_add_right_eq)
  have enc: "ToBytes p = Payload.ID p # PutUint32 ?w @ ?body"
    by (rule ToBytes_concat)
  have hdr: "Uint32 (take 4 (drop (Suc 0) (ToBytes p))) = ?w"
    by (simp only: enc) (simp add: Uint32_PutUint32)
  have body: "drop 5 (ToBytes p) = ?body"
    by (simp only: enc) simp
  have l: "length (ToBytes p) = 5 + length ?body"
    by (simp only: enc) simp
  have i: "ToBytes p ! 0 = Payload.ID p"
    by (simp only: enc) simp
  have fields: "unmarshalFieldsFromBytes \<lparr>Payload.ID = Payload.ID p, Fields = []\<rparr> ?body 0 = (p, None)"
    using unmarshal_fields_concat [OF assms(2), of "\<lparr>Payload.ID = Payload.ID p, Fields = []\<rparr>" "[]"] by simp
  show ?thesis
    using assms(1) by (simp add: UnmarshalBinary_def empty_Payload_def Let_def l i hdr body u fields)
qed

lemma UnmarshalBinary_ToBytes_zero:
  assumes "Payload.ID p = 0"
  shows "UnmarshalBinary empty_Payload (ToBytes p) = (empty_Payload, Ok ())"
proof -
  have "ToBytes p ! 0 = 0" "length (ToBytes p) \<noteq> 0"
    using assms by (simp_all add: ToBytes_concat)
  then show ?thesis
    by (simp add: UnmarshalBinary_def empty_Payload_def Let_def)
qed

lemma UnmarshalBinary_declared_length_too_long:
  assumes "5 \<le> length data" and "data ! 0 \<noteq> 0"
    and "length data - 5 < unat (Uint32 (take 4 (drop 1 data)))"
  shows "snd (UnmarshalBinary p data) = Panic SliceBoundsOutOfRange"
proof -
  define len where "len = Uint32 (take 4 (drop 1 data))"
  have u: "unat (5 + len) = (5 + unat len) mod 2 ^ 32"
    by (simp add: unat_word_ariths)
  have b: "unat len < 2 ^ 32"
    using unsigned_less [of len] by simp
  have a3: "length data - 5 < unat len"
    using assms(3) by (simp add: len_def)
  have "unat (5 + len) < 5 \<or> length data < unat (5 + len)"
  proof (cases "5 + unat len < 2 ^ 32")
    case True
    then have "unat (5 + len) = 5 + unat len" by (simp add: u)
    then show ?thesis using assms(1) a3 by linarith
  next
    case False
    then have "(5 + unat len) mod 2 ^ 32 = 5 + unat len - 2 ^ 32"
      using b by (simp add: mod_if)
    then show ?thesis using b u by linarith
  qed
  then show ?thesis
    using assms(1,2) unfolding len_def by (auto simp: UnmarshalBinary_def Let_def)
qed

text \<open>
  C3. Frame decoding is claimed total and exact: a declared frame length or field length
  that does not match the bytes available gives a framing error, never a panic and never
  a partial acceptance. \<^verbatim>\<open>UnmarshalBinary\<close> does not check the declared frame length
  against the buffer: on the five bytes \<open>0C 00 00 00 01\<close> (keep-alive, one byte declared,
  none present) the slice expression panics; a byte after the declared frame is ignored,
  and so are one or two bytes left after the last field.
\<close>

theorem UnmarshalBinary_short_frame_panics:
  "UnmarshalBinary empty_Payload [12, 0, 0, 0, 1]
     = (\<lparr>Payload.ID = 12, Fields = []\<rparr>, Panic SliceBoundsOutOfRange)
   \<and> UnmarshalBinary empty_Payload [12, 0, 0, 0, 0, 255]
     = (\<lparr>Payload.ID = 12, Fields = []\<rparr>, Ok ())
   \<and> UnmarshalBinary empty_Payload [12, 0, 0, 0, 2, 1, 0]
     = (\<lparr>Payload.ID = 12, Fields = []\<rparr>, Ok ())"
  by (simp add: UnmarshalBinary_def empty_Payload_def Uint32_def Let_def
        unmarshalFieldsFromBytes.simps)

text \<open>
  C4, as stated: decoding the encoding of any frame gives the frame back. It fails for the
  command id 0, which the decoder takes for "no command" and answers with the empty
  frame: the field of the frame below is lost.
\<close>

theorem roundtrip_zero_id_counterexample:
  "UnmarshalBinary empty_Payload (ToBytes \<lparr>Payload.ID = 0, Fields = [\<lparr>FieldID = 1, Value = []\<rparr>]\<rparr>)
     \<noteq> (\<lparr>Payload.ID = 0, Fields = [\<lparr>FieldID = 1, Value = []\<rparr>]\<rparr>, Ok ())"
  using UnmarshalBinary_ToBytes_zero [of "\<lparr>Payload.ID = 0, Fields = [\<lparr>FieldID = 1, Value = []\<rparr>]\<rparr>"]
  by (simp add: empty_Payload_def)

text \<open>
  C4, amended: for every frame with a command id other than 0, whose field values are
  shorter than \<open>2 ^ 16\<close> bytes and whose encoding is shorter than \<open>2 ^ 32\<close> bytes, decoding
  the encoding gives the frame back, fields in order, duplicate ids and empty values
  included; for the command id 0 it gives the empty frame.
\<close>

theorem UnmarshalBinary_ToBytes_roundtrip:
  "(Payload.ID p \<noteq> 0 \<and> (\<forall>f \<in> set (Fields p). length (Value f) < 65536)
      \<and> total_length (Fields p) 5 < 2 ^ 32
      \<longrightarrow> UnmarshalBinary empty_Payload (ToBytes p) = (p, Ok ()))
   \<and> (Payload.ID p = 0 \<longrightarrow> UnmarshalBinary empty_Payload (ToBytes p) = (empty_Payload, Ok ()))"
  using UnmarshalBinary_ToBytes [of p] UnmarshalBinary_ToBytes_zero [of p] by blast

theorem UnmarshalBinary_ToBytes_roundtrip_witness:
  "UnmarshalBinary empty_Payload
     (ToBytes \<lparr>Payload.ID = 9, Fields = [\<lparr>FieldID = 1, Value = [170, 187]\<rparr>,
                                       \<lparr>FieldID = 2, Value = []\<rparr>,
                                       \<lparr>FieldID = 2, Value = [7]\<rparr>]\<rparr>)
   = (\<lparr>Payload.ID = 9, Fields = [\<lparr>FieldID = 1, Value = [170, 187]\<rparr>,
                                 \<lparr>FieldID = 2, Value = []\<rparr>,
                                 \<lparr>FieldID = 2, Value = [7]\<rparr>]\<rparr>, Ok ())
   \<and> UnmarshalBinary empty_Payload (ToBytes \<lparr>Payload.ID = 0, Fields = []\<rparr>) = (empty_Payload, Ok ())"
  using UnmarshalBinary_ToBytes_roundtrip
          [of "\<lparr>Payload.ID = 9, Fields = [\<lparr>FieldID = 1, Value = [170, 187]\<rparr>,
                                           \<lparr>FieldID = 2, Value = []\<rparr>,
                                           \<lparr>FieldID = 2, Value = [7]\<rparr>]\<rparr>"]
        UnmarshalBinary_ToBytes_roundtrip [of "\<lparr>Payload.ID = 0, Fields = []\<rparr>"]
  by simp
text \<open>
  The bounds of the amended statement are needed: a value of \<open>2 ^ 16\<close> bytes is written
  with the length bytes \<open>00 00\<close>, and the decoder reads a first field with an empty value.
\<close>

lemma unmarshalFieldsFromBytes_extends:
  "\<exists>fs. Fields (fst (unmarshalFieldsFromBytes p data i)) = Fields p @ fs"
proof (induction p data i rule: unmarshalFieldsFromBytes.induct)
  case (1 p data i)
  show ?case
  proof (cases "i + 3 \<le> length data
                \<and> \<not> i + 3 + unat (Uint16 (take 2 (drop (i + 1) data))) > length data")
    case True
    then obtain fs where
      "Fields (fst (unmarshalFieldsFromBytes
                 (p\<lparr>Fields := Fields p @ [\<lparr>FieldID = data ! i,
                      Value = take (unat (Uint16 (take 2 (drop (i + 1) data)))) (drop (i + 3) data)\<rparr>]\<rparr>)
                 data (i + (3 + unat (Uint16 (take 2 (drop (i + 1) data)))))))
       = Fields (p\<lparr>Fields := Fields p @ [\<lparr>FieldID = data ! i,
                      Value = take (unat (Uint16 (take 2 (drop (i + 1) data)))) (drop (i + 3) data)\<rparr>]\<rparr>) @ fs"
      using "1.IH" [OF _ refl] by auto
    then show ?thesis
      using True by (subst unmarshalFieldsFromBytes.simps) (simp add: Let_def)
  next
    case False
    then show ?thesis
      by (subst unmarshalFieldsFromBytes.simps) (auto simp: Let_def)
  qed
qed

lemma roundtrip_long_value:
  "UnmarshalBinary empty_Payload
     (ToBytes \<lparr>Payload.ID = 1, Fields = [\<lparr>FieldID = 1, Value = replicate 65536 0\<rparr>]\<rparr>)
   \<noteq> (\<lparr>Payload.ID = 1, Fields = [\<lparr>FieldID = 1, Value = replicate 65536 0\<rparr>]\<rparr>, Ok ())"
proof -
  let ?p = "\<lparr>Payload.ID = 1, Fields = [\<lparr>FieldID = 1, Value = replicate 65536 0\<rparr>]\<rparr>"
  let ?data = "1 # 0 # 0 # replicate 65536 (0 :: byte)"
  let ?q = "\<lparr>Payload.ID = 1, Fields = [\<lparr>FieldID = 1, Value = []\<rparr>]\<rparr>"
  have enc: "ToBytes ?p = 1 # PutUint32 65539 @ ?data"
    by (simp add: ToBytes_concat field_bytes_def PutUint16_def)
  have step: "unmarshalFieldsFromBytes \<lparr>Payload.ID = 1, Fields = []\<rparr> ?data 0
              = unmarshalFieldsFromBytes ?q ?data 3"
    by (subst unmarshalFieldsFromBytes.simps) (simp add: Uint16_def Let_def)
  obtain fs where fs: "Fields (fst (unmarshalFieldsFromBytes ?q ?data 3)) = Fields ?q @ fs"
    using unmarshalFieldsFromBytes_extends by blast
  have dec: "fst (UnmarshalBinary empty_Payload (ToBytes ?p))
             = fst (unmarshalFieldsFromBytes ?q ?data 3)"
  proof -
    obtain q e where r: "unmarshalFieldsFromBytes \<lparr>Payload.ID = 1, Fields = []\<rparr> ?data 0 = (q, e)"
      by (cases "unmarshalFieldsFromBytes \<lparr>Payload.ID = 1, Fields = []\<rparr> ?data 0") auto
    have "fst (UnmarshalBinary empty_Payload (ToBytes ?p)) = q"
      by (simp only: enc)
         (cases e; simp add: UnmarshalBinary_def empty_Payload_def Let_def Uint32_PutUint32 r)
    then show ?thesis
      using r step by simp
  qed
  have "Fields (fst (UnmarshalBinary empty_Payload (ToBytes ?p))) \<noteq> Fields ?p"
    unfolding dec fs by simp
  then show ?thesis by auto
qed

section \<open>The decryptor\<close>

lemma ParseBody_missing_header:
  "length payload < 4 \<Longrightarrow>
   ParseBody payload = Err (ErrorString (''too short payload (missing header, expected >4, got ''
                                          @ nat_to_string (length payload) @ '')''))"
  by (simp add: ParseBody_def)

lemma ParseBody_missing_body:
  assumes "4 \<le> length payload"
    and "unat (Uint16 (take 2 (drop 1 payload))) \<le> 65531"
    and "length payload < unat (Uint16 (take 2 (drop 1 payload))) + 4"
  shows "ParseBody payload =
           Err (ErrorString (''too short payload (missing body, expected >''
                  @ nat_to_string (unat (Uint16 (take 2 (drop 1 payload))) + 4) @ '', got ''
                  @ nat_to_string (length payload) @ '')''))"
proof -
  define bl where "bl = Uint16 (take 2 (drop 1 payload))"
  have "unat (3 + bl + 1) = unat bl + 4"
    using assms(2) by (simp add: unat_word_ariths bl_def)
  then show ?thesis
    using assms unfolding bl_def by (simp add: ParseBody_def Let_def)
qed

lemma ParseBody_Ok:
  assumes "ParseBody payload = Ok pb"
  shows "Tag pb = payload ! 0
       \<and> length (Body pb) = unat (Uint16 (take 2 (drop 1 payload)))
       \<and> Body pb = take (unat (Uint16 (take 2 (drop 1 payload)))) (drop 3 payload)
       \<and> ParsedBody.Signature pb = drop (unat (3 + Uint16 (take 2 (drop 1 payload)) + 1)) payload"
proof -
  define bl where "bl = Uint16 (take 2 (drop 1 payload))"
  have c1: "\<not> length payload < 4"
    using assms by (auto simp: ParseBody_def)
  have c2: "\<not> length payload < unat (3 + bl + 1)"
    using assms c1 unfolding bl_def by (auto simp: ParseBody_def Let_def)
  have c3: "\<not> (unat (3 + bl) < 3 \<or> length payload < unat (3 + bl))"
    using assms c1 c2 unfolding bl_def by (auto simp: ParseBody_def Let_def)
  have c4: "\<not> length payload \<le> unat (3 + bl)"
    using assms c1 c2 c3 unfolding bl_def by (auto simp: ParseBody_def Let_def)
  have c5: "\<not> length payload < unat (3 + bl + 1 + ucast (payload ! unat (3 + bl)))"
    using assms c1 c2 c3 c4 unfolding bl_def by (auto simp: ParseBody_def Let_def)
  have c6: "\<not> length payload < unat (3 + bl + 1)"
    by (rule c2)
  have pb: "pb = \<lparr>Tag = payload ! 0, Body = take (unat (3 + bl) - 3) (drop 3 payload),
                    Signature = drop (unat (3 + bl + 1)) payload\<rparr>"
    using assms c1 c2 c3 c4 c5 unfolding bl_def by (auto simp: ParseBody_def Let_def)
  have b: "unat bl < 65536"
    using unsigned_less [of bl] by simp
  have u: "unat (3 + bl) = (3 + unat bl) mod 65536"
    by (simp add: unat_word_ariths)
  have nowrap: "3 + unat bl < 65536"
  proof (rule ccontr)
    assume "\<not> 3 + unat bl < 65536"
    then have "(3 + unat bl) mod 65536 = 3 + unat bl - 65536"
      using b by (simp add: mod_if)
    with u b c3 show False by linarith
  qed
  then have h: "unat (3 + bl) = 3 + unat bl" by (simp add: u)
  show ?thesis
    using c3 unfolding bl_def [symmetric] pb h by simp
qed
text \<open>
  C7. \<^verbatim>\<open>ParseBody\<close> is claimed to fail with the "missing body" condition whenever the
  declared body length exceeds the bytes that remain after the header. The sums with the
  16-bit \<^verbatim>\<open>bodyLength\<close> wrap: on the four bytes \<open>00 FF FF 00\<close>, which declare a body of
  65535 bytes and hold none, the expected length is computed as 3, the length check
  passes, and the slice expression \<^verbatim>\<open>payload[3 : 3+bodyLength]\<close> panics.
\<close>

theorem ParseBody_length_overflow_panics:
  "ParseBody [0, 255, 255, 0] = Panic SliceBoundsOutOfRange"
  by (simp add: ParseBody_def Uint16_def Let_def)

lemma DecryptPairPayload_decrypted:
  assumes "160 \<le> length (Body body)"
    and "rsa_DecryptOAEP env key (take 160 (Body body)) = Inr plain"
  shows "DecryptPairPayload env key body =
           (if length plain < 16 then Panic SliceBoundsOutOfRange
            else Ok (aes_CTR env (take 16 plain) normalIV (drop 16 plain @ drop 160 (Body body))))"
  using assms by (simp add: DecryptPairPayload_def Let_def aes_NewCipher_def)

lemma DecryptPairPayload_too_short:
  "length (Body body) < 160 \<Longrightarrow>
   DecryptPairPayload env key body =
     Err (ErrorString (''too short payload (missing encryption key, expected >160, got ''
                         @ nat_to_string (length (Body body)) @ '')''))"
  by (simp add: DecryptPairPayload_def)

text \<open>
  C5. For every key and every parsed body of at least 160 bytes whose first 160 bytes
  decrypt (RSA-OAEP with SHA-1) to a 16-byte AES key followed by the first chunk of the
  ciphertext, \<^verbatim>\<open>DecryptPairPayload\<close> returns the AES-CTR decryption, under that key and the
  initialisation vector of 16 zero bytes, of the chunk followed by the rest of the body;
  a body shorter than 160 bytes gives an error.
\<close>

theorem DecryptPairPayload_pair_scheme:
  "(160 \<le> length (Body body)
      \<and> rsa_DecryptOAEP env key (take 160 (Body body)) = Inr (aesKey @ chunk)
      \<and> length aesKey = 16
     \<longrightarrow> DecryptPairPayload env key body
           = Ok (aes_CTR env aesKey (replicate 16 0) (chunk @ drop 160 (Body body))))
   \<and> (length (Body body) < 160 \<longrightarrow> (\<exists>err. DecryptPairPayload env key body = Err err))"
proof -
  have iv: "normalIV = replicate 16 0"
    by (simp add: normalIV_def eval_nat_numeral)
  show ?thesis
    by (auto simp: DecryptPairPayload_decrypted DecryptPairPayload_too_short iv)
qed

theorem DecryptPairPayload_pair_scheme_witness:
  "DecryptPairPayload example_crypto (RSAPrivateKey 1)
     \<lparr>Tag = 0, Body = replicate 160 1 @ [9, 8, 7], Signature = []\<rparr>
     = Ok (map (\<lambda>b. b XOR 90) [5, 6, 9, 8, 7])
   \<and> (\<exists>err. DecryptPairPayload example_crypto (RSAPrivateKey 1)
               \<lparr>Tag = 0, Body = [1, 2, 3], Signature = []\<rparr> = Err err)"
  using DecryptPairPayload_pair_scheme
          [of "\<lparr>Tag = 0, Body = replicate 160 1 @ [9, 8, 7], Signature = []\<rparr>"
              example_crypto "RSAPrivateKey 1" "replicate 16 7" "[5, 6]"]
        DecryptPairPayload_pair_scheme
          [of "\<lparr>Tag = 0, Body = [1, 2, 3], Signature = []\<rparr>" example_crypto "RSAPrivateKey 1"]
  by (simp add: example_crypto_def)

text \<open>
  C10. The length check of \<^verbatim>\<open>DecryptPairPayload\<close> is on the encrypted body alone. Once
  the 160-byte block decrypts, the first 16 bytes of the plaintext are sliced off without
  a check: a plaintext shorter than 16 bytes gives a panic, not an error; one of at least
  16 bytes gives a result.
\<close>

theorem DecryptPairPayload_short_plaintext_panics:
  "160 \<le> length (Body body) \<Longrightarrow>
   rsa_DecryptOAEP env key (take 160 (Body body)) = Inr plain \<Longrightarrow>
   (length plain < 16 \<longrightarrow> DecryptPairPayload env key body = Panic SliceBoundsOutOfRange)
   \<and> (16 \<le> length plain \<longrightarrow> (\<exists>out. DecryptPairPayload env key body = Ok out))"
  by (simp add: DecryptPairPayload_decrypted)

theorem DecryptPairPayload_short_plaintext_panics_witness:
  "160 \<le> length (Body \<lparr>Tag = 0, Body = replicate 160 2, Signature = []\<rparr>)
   \<and> rsa_DecryptOAEP example_crypto (RSAPrivateKey 1) (replicate 160 2) = Inr [1, 2, 3]
   \<and> DecryptPairPayload example_crypto (RSAPrivateKey 1)
        \<lparr>Tag = 0, Body = replicate 160 2, Signature = []\<rparr> = Panic SliceBoundsOutOfRange
   \<and> (\<exists>out. DecryptPairPayload example_crypto (RSAPrivateKey 1)
               \<lparr>Tag = 0, Body = replicate 160 1, Signature = []\<rparr> = Ok out)"
  using DecryptPairPayload_short_plaintext_panics
          [of "\<lparr>Tag = 0, Body = replicate 160 2, Signature = []\<rparr>"
              example_crypto "RSAPrivateKey 1" "[1, 2, 3]"]
        DecryptPairPayload_short_plaintext_panics
          [of "\<lparr>Tag = 0, Body = replicate 160 1, Signature = []\<rparr>"
              example_crypto "RSAPrivateKey 1" "replicate 16 7 @ [5, 6]"]
  by (simp add: example_crypto_def)

section \<open>The session\<close>

lemma messaging_Connect_nil_channel:
  "messaging_Connect now reg st = Ok s \<Longrightarrow> messageChan s = NilChan \<and> state s = None"
  by (auto simp: messaging_Connect_def Let_def split: option.splits if_splits)

lemma ensureHandshake_messageChan:
  "ensureHandshake w s = (s', r) \<Longrightarrow> messageChan s' = messageChan s"
  by (auto simp: ensureHandshake_def split: if_splits option.splits result.splits)

lemma handleAPNSMessage_nil_channel:
  assumes "messageChan s = NilChan"
  shows "handleAPNSMessage env now s p = (s, Err (ErrorString ''message channel full''))
       \<or> (\<exists>pn. handleAPNSMessage env now s p = (s, Panic pn))"
proof (cases "encryption_key s")
  case None
  then show ?thesis using assms by (simp add: handleAPNSMessage_def Let_def)
next
  case (Some key)
  then show ?thesis
    using assms
    by (cases "DecryptMessage env key (Payload p)") (simp_all add: handleAPNSMessage_def Let_def)
qed




text \<open>
  C9, as stated: a registration whose valid-until time is before the current time is
  rejected with the registration-expired error. The checks run in the order nil, empty
  validation data, expired: the registration below is expired and has no validation
  data, and it is rejected with the error for invalid data.
\<close>

theorem messaging_Connect_expired_counterexample:
  "ValidUntil (example_registration\<lparr>RegistrationData.ValidationData := []\<rparr>) < 200
   \<and> messaging_Connect 200 (Some (example_registration\<lparr>RegistrationData.ValidationData := []\<rparr>)) None
       = Err ErrInvalidRegistrationData
   \<and> messaging_Connect 200 (Some (example_registration\<lparr>RegistrationData.ValidationData := []\<rparr>)) None
       \<noteq> Err ErrRegistrationExpired"
  by (simp add: messaging_Connect_def example_registration_def ErrInvalidRegistrationData_def
        ErrRegistrationExpired_def)

text \<open>
  C9, amended: \<^verbatim>\<open>messaging.Connect\<close> validates the registration in this order: a nil
  registration is rejected with the nil-registration error; a registration without
  validation data with the error for invalid data, expired or not; a registration with
  validation data whose valid-until time is before the current time with the
  registration-expired error. The three errors differ, no session is returned, and every
  expired registration is rejected. The function takes the time, the registration and the
  store only: no handshake and no network is within its reach, and a session it returns
  has no handshake state.
\<close>

theorem messaging_Connect_validates:
  "messaging_Connect now None st = Err (ErrorString ''registration data is nil'')
   \<and> (length (RegistrationData.ValidationData r) = 0
        \<longrightarrow> messaging_Connect now (Some r) st = Err ErrInvalidRegistrationData)
   \<and> (length (RegistrationData.ValidationData r) \<noteq> 0 \<and> ValidUntil r < now
        \<longrightarrow> messaging_Connect now (Some r) st = Err ErrRegistrationExpired)
   \<and> (ValidUntil r < now \<longrightarrow> (\<exists>err. messaging_Connect now (Some r) st = Err err))
   \<and> ErrorString ''registration data is nil'' \<noteq> ErrInvalidRegistrationData
   \<and> ErrorString ''registration data is nil'' \<noteq> ErrRegistrationExpired
   \<and> ErrInvalidRegistrationData \<noteq> ErrRegistrationExpired
   \<and> (\<forall>s. messaging_Connect now reg st = Ok s \<longrightarrow> state s = None)"
  by (auto simp: messaging_Connect_def IsExpired_def ErrInvalidRegistrationData_def
        ErrRegistrationExpired_def Let_def split: option.splits)

theorem messaging_Connect_validates_witness:
  "messaging_Connect 200 None None = Err (ErrorString ''registration data is nil'')
   \<and> messaging_Connect 50 (Some (example_registration\<lparr>RegistrationData.ValidationData := []\<rparr>)) None
       = Err ErrInvalidRegistrationData
   \<and> messaging_Connect 200 (Some example_registration) None = Err ErrRegistrationExpired
   \<and> (\<exists>s. messaging_Connect 50 (Some example_registration) None = Ok s \<and> state s = None)"
  using messaging_Connect_validates
          [of 200 None "example_registration" "Some example_registration"]
        messaging_Connect_validates
          [of 50 None "example_registration\<lparr>RegistrationData.ValidationData := []\<rparr>"
              "Some example_registration"]
  by (simp add: example_registration_def messaging_Connect_def IsExpired_def Let_def)














section \<open>The courier connection\<close>

lemma ToBytes_KeepAlive: "ToBytes KeepAliveCommand_ToPayload = [12, 0, 0, 0, 0]"
  by (simp add: ToBytes_concat KeepAliveCommand_ToPayload_def CommandKeepAlive_def PutUint32_def)

lemma readPayload_cases:
  assumes "conn c = Some s"
  obtains (ok) c1 p s1 where "readPayload c = (c1, Inr p)" "conn c1 = Some s1"
      "trace s1 = trace s @ [EvRead p]" "messageHandler c1 = messageHandler c"
  | (err) c1 e s1 where "readPayload c = (c1, Inl e)" "conn c1 = Some s1"
      "trace s1 = trace s @ [EvReadError e]"
proof -
  obtain p r e where u: "UnmarshalBinaryStream empty_Payload (inbound s) = (p, r, e)"
    by (cases "UnmarshalBinaryStream empty_Payload (inbound s)") auto
  show ?thesis
  proof (cases e)
    case None
    show ?thesis
      by (rule ok [of "c\<lparr>conn := Some (s\<lparr>inbound := r, trace := trace s @ [EvRead p]\<rparr>)\<rparr>" p
                      "s\<lparr>inbound := r, trace := trace s @ [EvRead p]\<rparr>"])
         (simp_all add: readPayload_def assms u None)
  next
    case (Some x)
    show ?thesis
      by (rule err [of "c\<lparr>conn := Some (s\<lparr>inbound := r, trace := trace s @ [EvReadError x]\<rparr>)\<rparr>" x
                       "s\<lparr>inbound := r, trace := trace s @ [EvReadError x]\<rparr>"])
         (simp_all add: readPayload_def assms u Some)
  qed
qed

lemma conn_write_cases:
  assumes "conn c = Some s"
  obtains (ok) c2 s2 where "conn_write c d = (c2, None)" "conn c2 = Some s2"
      "trace s2 = trace s @ [EvWrite d None]"
  | (write_error) c2 s2 e where "conn_write c d = (c2, Some e)" "conn c2 = Some s2"
      "trace s2 = trace s @ [EvWrite d (Some e)]"
  | (deadline_error) c2 s2 e where "conn_write c d = (c2, Some e)" "conn c2 = Some s2"
      "trace s2 = trace s @ [EvSetDeadlineError e]"
proof (cases "case write_script s of [] \<Rightarrow> WriteOk | w # _ \<Rightarrow> w")
  case WriteOk
  show ?thesis
    by (rule ok [of "c\<lparr>conn := Some (s\<lparr>write_script := tl (write_script s),
                                          trace := trace s @ [EvWrite d None]\<rparr>)\<rparr>"
                    "s\<lparr>write_script := tl (write_script s), trace := trace s @ [EvWrite d None]\<rparr>"])
       (simp_all add: conn_write_def assms WriteOk)
next
  case (DeadlineError e)
  show ?thesis
    by (rule deadline_error [of "c\<lparr>conn := Some (s\<lparr>write_script := tl (write_script s),
                                          trace := trace s @ [EvSetDeadlineError e]\<rparr>)\<rparr>" e
                    "s\<lparr>write_script := tl (write_script s), trace := trace s @ [EvSetDeadlineError e]\<rparr>"])
       (simp_all add: conn_write_def assms DeadlineError)
next
  case (WriteError e)
  show ?thesis
    by (rule write_error [of "c\<lparr>conn := Some (s\<lparr>write_script := tl (write_script s),
                                          trace := trace s @ [EvWrite d (Some e)]\<rparr>)\<rparr>" e
                    "s\<lparr>write_script := tl (write_script s), trace := trace s @ [EvWrite d (Some e)]\<rparr>"])
       (simp_all add: conn_write_def assms WriteError)
qed

text \<open>One turn of the loop on a keep-alive frame whose reply is written: the loop goes on.\<close>

lemma ReadLoop_keepalive_continues:
  assumes "\<not> ctx n" and "readPayload c = (c1, Inr p)" and "Payload.ID p = CommandKeepAlive"
    and "conn_write c1 [12, 0, 0, 0, 0] = (c2, None)"
  shows "ReadLoop ctx n c h = ReadLoop ctx (Suc n) c2 h"
  using assms
  by (subst ReadLoop.simps)
     (simp add: ToBytes_KeepAlive CommandKeepAlive_def CommandSendMessage_def)

lemma ReadLoop_keepalive_write_fails:
  assumes "\<not> ctx n" and "readPayload c = (c1, Inr p)" and "Payload.ID p = CommandKeepAlive"
    and "conn_write c1 [12, 0, 0, 0, 0] = (c2, Some err)"
  shows "ReadLoop ctx n c h = (c2, h, Err (Errorf_w ''failed to respond to keep-alive: '' err))"
  using assms
  by (subst ReadLoop.simps)
     (simp add: ToBytes_KeepAlive CommandKeepAlive_def CommandSendMessage_def)
lemma ReadLoop_trace:
  "conn c = Some s \<Longrightarrow>
   \<exists>s' evs. conn (fst (ReadLoop ctx n c h)) = Some s' \<and> trace s' = trace s @ evs
            \<and> keepalives_answered evs"
proof (induction "remaining c" arbitrary: c n h s rule: less_induct)
  case less
  note c = \<open>conn c = Some s\<close>
  have done_with: "\<exists>s' evs'. conn (fst (ReadLoop ctx n c h)) = Some s' \<and> trace s' = trace s @ evs'
                      \<and> keepalives_answered evs'"
    if "ReadLoop ctx n c h = (c', h', r)" "conn c' = Some s'" "trace s' = trace s @ evs"
       "keepalives_answered evs" for c' h' r s' evs
    using that by auto
  have go_on: "\<exists>s' evs'. conn (fst (ReadLoop ctx n c h)) = Some s' \<and> trace s' = trace s @ evs'
                      \<and> keepalives_answered evs'"
    if eq: "ReadLoop ctx n c h = ReadLoop ctx (Suc n) c' h'" and lt: "remaining c' < remaining c"
      and c': "conn c' = Some s1" and t: "trace s1 = trace s @ evs"
      and k: "\<And>evs'. keepalives_answered evs' \<Longrightarrow> keepalives_answered (evs @ evs')"
    for c' h' s1 evs
  proof -
    obtain s' evs' where "conn (fst (ReadLoop ctx (Suc n) c' h')) = Some s'"
        "trace s' = trace s1 @ evs'" "keepalives_answered evs'"
      using less.hyps [OF lt c'] by blast
    then show ?thesis
      using eq t k by auto
  qed
  show ?case
  proof (cases "ctx n")
    case True
    then have "ReadLoop ctx n c h = (c, h, Err context_Canceled)"
      by (subst ReadLoop.simps) simp
    then show ?thesis
      by (rule done_with [OF _ c, where evs = "[]"]) simp_all
  next
    case False
    from c show ?thesis
    proof (cases rule: readPayload_cases)
      case (err c1 e s1)
      have "ReadLoop ctx n c h = (c1, h, Err (Errorf_w ''failed to read payload: '' e))"
        using False err(1) by (subst ReadLoop.simps) simp
      then show ?thesis
        by (rule done_with [OF _ err(2,3)]) simp
    next
      case (ok c1 p s1)
      have lt: "remaining c1 < remaining c"
        by (rule readPayload_consumes [OF ok(1)])
      show ?thesis
      proof (cases "Payload.ID p = CommandKeepAlive")
        case True
        from ok(2) show ?thesis
        proof (cases rule: conn_write_cases [where d = "[12, 0, 0, 0, 0]"])
          case (ok c2 s2)
          have "ReadLoop ctx n c h = ReadLoop ctx (Suc n) c2 h"
            using False \<open>readPayload c = (c1, Inr p)\<close> True ok(1)
            by (rule ReadLoop_keepalive_continues)
          moreover have "remaining c2 < remaining c"
            using conn_write_remaining [OF ok(1)] lt by simp
          moreover have "trace s2 = trace s @ [EvRead p, EvWrite [12, 0, 0, 0, 0] None]"
            using ok(3) \<open>trace s1 = trace s @ [EvRead p]\<close> by simp
          ultimately show ?thesis
            by (rule go_on [OF _ _ ok(2)]) (simp add: True)
        next
          case (write_error c2 s2 e)
          have "ReadLoop ctx n c h = (c2, h, Err (Errorf_w ''failed to respond to keep-alive: '' e))"
            using False \<open>readPayload c = (c1, Inr p)\<close> True write_error(1)
            by (rule ReadLoop_keepalive_write_fails)
          moreover have "trace s2 = trace s @ [EvRead p, EvWrite [12, 0, 0, 0, 0] (Some e)]"
            using write_error(3) \<open>trace s1 = trace s @ [EvRead p]\<close> by simp
          ultimately show ?thesis
            by (rule done_with [OF _ write_error(2)]) (simp add: True)
        next
          case (deadline_error c2 s2 e)
          have "ReadLoop ctx n c h = (c2, h, Err (Errorf_w ''failed to respond to keep-alive: '' e))"
            using False \<open>readPayload c = (c1, Inr p)\<close> True deadline_error(1)
            by (rule ReadLoop_keepalive_write_fails)
          moreover have "trace s2 = trace s @ [EvRead p, EvSetDeadlineError e]"
            using deadline_error(3) \<open>trace s1 = trace s @ [EvRead p]\<close> by simp
          ultimately show ?thesis
            by (rule done_with [OF _ deadline_error(2)]) (simp add: True)
        qed
      next
        case nk: False
        have k: "\<And>evs'. keepalives_answered evs' \<Longrightarrow> keepalives_answered ([EvRead p] @ evs')"
          using nk by simp
        show ?thesis
        proof (cases "Payload.ID p = CommandSendMessage")
          case send: True
          show ?thesis
          proof (cases "messageHandler c1")
            case None
            have "ReadLoop ctx n c h = ReadLoop ctx (Suc n) c1 h"
              using False ok(1) send None by (subst ReadLoop.simps) simp
            then show ?thesis
              by (rule go_on [OF _ lt ok(2,3) k])
          next
            case (Some handler)
            define msgPayload where
              "msgPayload = \<lparr>Topic = bytes_to_string (IncomingSendMessageCommand.Topic
                                         (IncomingSendMessageCommand_FromPayload p)),
                             Payload = IncomingSendMessageCommand.Payload
                                         (IncomingSendMessageCommand_FromPayload p)\<rparr>"
            obtain h' res where hr: "handler h msgPayload = (h', res)"
              by (cases "handler h msgPayload") auto
            show ?thesis
            proof (cases res)
              case (Panic pn)
              have "ReadLoop ctx n c h = (c1, h', Panic pn)"
                using False ok(1) send Some hr Panic
                by (subst ReadLoop.simps) (simp add: Let_def msgPayload_def)
              then show ?thesis
                by (rule done_with [OF _ ok(2,3)]) (simp add: nk)
            next
              case (Ok u)
              have "ReadLoop ctx n c h = ReadLoop ctx (Suc n) c1 h'"
                using False ok(1) send Some hr Ok
                by (subst ReadLoop.simps) (simp add: Let_def msgPayload_def)
              then show ?thesis
                by (rule go_on [OF _ lt ok(2,3) k])
            next
              case (Err e)
              have "ReadLoop ctx n c h = ReadLoop ctx (Suc n) c1 h'"
                using False ok(1) send Some hr Err
                by (subst ReadLoop.simps) (simp add: Let_def msgPayload_def)
              then show ?thesis
                by (rule go_on [OF _ lt ok(2,3) k])
            qed
          qed
        next
          case other: False
          have "ReadLoop ctx n c h = ReadLoop ctx (Suc n) c1 h"
            using False ok(1) nk other by (subst ReadLoop.simps) simp
          then show ?thesis
            by (rule go_on [OF _ lt ok(2,3) k])
        qed
      qed
    qed
  qed
qed
lemma readPayload_keepalive_example:
  "readPayload keepalive_connection =
     (keepalive_connection
        \<lparr>conn := Some \<lparr>inbound = [], write_script = [],
                         trace = [EvRead \<lparr>Payload.ID = 12, Fields = []\<rparr>]\<rparr>\<rparr>,
      Inr \<lparr>Payload.ID = 12, Fields = []\<rparr>)"
  by (simp add: readPayload_def keepalive_connection_def keepalive_socket_def NewConnection_def
        UnmarshalBinaryStream_def ReadFull_def Uint32_def Let_def empty_Payload_def
        unmarshalFieldsFromBytes.simps)

lemma conn_write_keepalive_example:
  "conn_write (keepalive_connection
        \<lparr>conn := Some \<lparr>inbound = [], write_script = [],
                         trace = [EvRead \<lparr>Payload.ID = 12, Fields = []\<rparr>]\<rparr>\<rparr>) [12, 0, 0, 0, 0]
   = (keepalive_connection
        \<lparr>conn := Some \<lparr>inbound = [], write_script = [],
                         trace = [EvRead \<lparr>Payload.ID = 12, Fields = []\<rparr>,
                                  EvWrite [12, 0, 0, 0, 0] None]\<rparr>\<rparr>, None)"
  by (simp add: conn_write_def keepalive_connection_def NewConnection_def)

lemma ReadLoop_keepalive_example:
  "ReadLoop (\<lambda>n. False) 0 keepalive_connection () =
     (keepalive_connection
        \<lparr>conn := Some \<lparr>inbound = [], write_script = [],
                         trace = [EvRead \<lparr>Payload.ID = 12, Fields = []\<rparr>,
                                  EvWrite [12, 0, 0, 0, 0] None,
                                  EvReadError io_EOF]\<rparr>\<rparr>,
      (), Err (Errorf_w ''failed to read payload: '' io_EOF))"
proof -
  let ?c2 = "keepalive_connection
               \<lparr>conn := Some \<lparr>inbound = [], write_script = [],
                                trace = [EvRead \<lparr>Payload.ID = 12, Fields = []\<rparr>,
                                         EvWrite [12, 0, 0, 0, 0] None]\<rparr>\<rparr>"
  have r2: "readPayload ?c2 =
              (keepalive_connection
                 \<lparr>conn := Some \<lparr>inbound = [], write_script = [],
                                  trace = [EvRead \<lparr>Payload.ID = 12, Fields = []\<rparr>,
                                           EvWrite [12, 0, 0, 0, 0] None,
                                           EvReadError io_EOF]\<rparr>\<rparr>, Inl io_EOF)"
    by (simp add: readPayload_def keepalive_connection_def NewConnection_def
          UnmarshalBinaryStream_def ReadFull_def empty_Payload_def)
  have "ReadLoop (\<lambda>n. False) 0 keepalive_connection () = ReadLoop (\<lambda>n. False) (Suc 0) ?c2 ()"
    by (rule ReadLoop_keepalive_continues
              [OF _ readPayload_keepalive_example _ conn_write_keepalive_example])
       (simp_all add: CommandKeepAlive_def)
  also have "\<dots> = (keepalive_connection
        \<lparr>conn := Some \<lparr>inbound = [], write_script = [],
                         trace = [EvRead \<lparr>Payload.ID = 12, Fields = []\<rparr>,
                                  EvWrite [12, 0, 0, 0, 0] None,
                                  EvReadError io_EOF]\<rparr>\<rparr>,
      (), Err (Errorf_w ''failed to read payload: '' io_EOF))"
    by (subst ReadLoop.simps) (simp add: r2)
  finally show ?thesis .
qed

text \<open>
  C8. The encoding of the keep-alive frame is \<open>0C 00 00 00 00\<close>. Whatever the dispatch
  loop adds to the trace of the socket, each keep-alive frame read is followed at once,
  before any further read, by one write of these bytes, and no other write is made. After
  a keep-alive frame the loop goes on when the write succeeds, and returns the error
  "failed to respond to keep-alive" when it fails.
\<close>

theorem ReadLoop_answers_keepalive:
  "ToBytes KeepAliveCommand_ToPayload = [12, 0, 0, 0, 0]
   \<and> (conn c = Some s \<longrightarrow>
        (\<exists>s' evs. conn (fst (ReadLoop ctx n c h)) = Some s' \<and> trace s' = trace s @ evs
                  \<and> keepalives_answered evs))
   \<and> (\<not> ctx n \<and> readPayload c = (c1, Inr p) \<and> Payload.ID p = CommandKeepAlive \<longrightarrow>
        (case conn_write c1 [12, 0, 0, 0, 0] of
           (c2, None) \<Rightarrow> ReadLoop ctx n c h = ReadLoop ctx (Suc n) c2 h
         | (c2, Some err) \<Rightarrow>
             ReadLoop ctx n c h = (c2, h, Err (Errorf_w ''failed to respond to keep-alive: '' err))))"
proof (intro conjI impI)
  show "ToBytes KeepAliveCommand_ToPayload = [12, 0, 0, 0, 0]"
    by (rule ToBytes_KeepAlive)
next
  assume "conn c = Some s"
  then show "\<exists>s' evs. conn (fst (ReadLoop ctx n c h)) = Some s' \<and> trace s' = trace s @ evs
                     \<and> keepalives_answered evs"
    by (rule ReadLoop_trace)
next
  assume a: "\<not> ctx n \<and> readPayload c = (c1, Inr p) \<and> Payload.ID p = CommandKeepAlive"
  obtain c2 r where w: "conn_write c1 [12, 0, 0, 0, 0] = (c2, r)"
    by (cases "conn_write c1 [12, 0, 0, 0, 0]") auto
  show "case conn_write c1 [12, 0, 0, 0, 0] of
          (c2, None) \<Rightarrow> ReadLoop ctx n c h = ReadLoop ctx (Suc n) c2 h
        | (c2, Some err) \<Rightarrow>
            ReadLoop ctx n c h = (c2, h, Err (Errorf_w ''failed to respond to keep-alive: '' err))"
  proof (cases r)
    case None
    then show ?thesis
      using a w ReadLoop_keepalive_continues [of ctx n c c1 p c2 h] by simp
  next
    case (Some err)
    then show ?thesis
      using a w ReadLoop_keepalive_write_fails [of ctx n c c1 p c2 err h] by simp
  qed
qed

theorem ReadLoop_answers_keepalive_witness:
  "conn keepalive_connection = Some keepalive_socket
   \<and> trace keepalive_socket = []
   \<and> conn (fst (ReadLoop (\<lambda>n. False) 0 keepalive_connection ()))
       = Some \<lparr>inbound = [], write_script = [],
                trace = [EvRead \<lparr>Payload.ID = 12, Fields = []\<rparr>,
                         EvWrite [12, 0, 0, 0, 0] None,
                         EvReadError io_EOF]\<rparr>
   \<and> keepalives_answered [EvRead \<lparr>Payload.ID = 12, Fields = []\<rparr>,
                           EvWrite [12, 0, 0, 0, 0] None,
                           EvReadError io_EOF]
   \<and> readPayload keepalive_connection =
       (keepalive_connection
          \<lparr>conn := Some \<lparr>inbound = [], write_script = [],
                           trace = [EvRead \<lparr>Payload.ID = 12, Fields = []\<rparr>]\<rparr>\<rparr>,
        Inr \<lparr>Payload.ID = 12, Fields = []\<rparr>)
   \<and> ReadLoop (\<lambda>n. False) 0 keepalive_connection () =
       ReadLoop (\<lambda>n. False) (Suc 0)
         (keepalive_connection
            \<lparr>conn := Some \<lparr>inbound = [], write_script = [],
                             trace = [EvRead \<lparr>Payload.ID = 12, Fields = []\<rparr>,
                                      EvWrite [12, 0, 0, 0, 0] None]\<rparr>\<rparr>) ()"
proof -
  have c: "conn keepalive_connection = Some keepalive_socket"
    by (simp add: keepalive_connection_def NewConnection_def)
  have t: "trace keepalive_socket = []"
    by (simp add: keepalive_socket_def)
  have k: "keepalives_answered [EvRead \<lparr>Payload.ID = 12, Fields = []\<rparr>,
                                EvWrite [12, 0, 0, 0, 0] None, EvReadError io_EOF]"
    by (simp add: CommandKeepAlive_def)
  have e: "conn (fst (ReadLoop (\<lambda>n. False) 0 keepalive_connection ()))
       = Some \<lparr>inbound = [], write_script = [],
                trace = [EvRead \<lparr>Payload.ID = 12, Fields = []\<rparr>,
                         EvWrite [12, 0, 0, 0, 0] None,
                         EvReadError io_EOF]\<rparr>"
    by (simp add: ReadLoop_keepalive_example)
  have l: "ReadLoop (\<lambda>n. False) 0 keepalive_connection () =
       ReadLoop (\<lambda>n. False) (Suc 0)
         (keepalive_connection
            \<lparr>conn := Some \<lparr>inbound = [], write_script = [],
                             trace = [EvRead \<lparr>Payload.ID = 12, Fields = []\<rparr>,
                                      EvWrite [12, 0, 0, 0, 0] None]\<rparr>\<rparr>) ()"
    using ReadLoop_answers_keepalive
            [of keepalive_connection keepalive_socket "\<lambda>n. False" 0 "()"
                "keepalive_connection
                   \<lparr>conn := Some \<lparr>inbound = [], write_script = [],
                                    trace = [EvRead \<lparr>Payload.ID = 12, Fields = []\<rparr>]\<rparr>\<rparr>"
                "\<lparr>Payload.ID = 12, Fields = []\<rparr>"]
    by (simp add: readPayload_keepalive_example conn_write_keepalive_example CommandKeepAlive_def)
  show ?thesis
    by (intro conjI c t e k readPayload_keepalive_example l)
qed


lemma Connect_dials_with_token:
  "privateKey c = Some key \<Longrightarrow> deviceCert c = Some cert \<Longrightarrow> token c \<noteq> [] \<Longrightarrow>
   DialContext net (nat_to_string (rand_Intn net mod CourierHostCount + 1) @ ''-'' @ CourierHostname
                      @ '':'' @ nat_to_string CourierPort) = Inl err \<Longrightarrow>
   Connect net c = (c, Some (Errorf_w ''failed to dial APNS: '' err))"
  by (simp add: Connect_def Let_def)




text \<open>With a token, the same courier is dialled and the token of its connect-ack adopted.\<close>

lemma Connect_example_with_token:
  "snd (Connect example_network
          (NewConnection (Some (RSAPrivateKey 2)) (Some (Certificate [48])) [1] :: unit Connection)) = None
   \<and> token (fst (Connect example_network
          (NewConnection (Some (RSAPrivateKey 2)) (Some (Certificate [48])) [1] :: unit Connection)))
       = [171, 205]"
  by (simp add: Connect_def NewConnection_def example_network_def Let_def conn_write_def
        readPayload_def UnmarshalBinaryStream_def ReadFull_def Uint32_def Uint16_def empty_Payload_def
        unmarshalFieldsFromBytes.simps CommandConnectAck_def
        ConnectAckCommand_FromPayload_def zero_ConnectAckCommand_def)

section \<open>The registration client and the handshake\<close>

lemma Register_status_error:
  assumes "plist_Marshal w = Inr body" and "http_NewRequest w = None"
    and "signRequest w body pushKey = None" and "client_Do w = Inr resp"
    and "StatusCode resp = 200" and "BodyError resp = None"
    and "plist_Unmarshal_RegisterResp w (BodyBytes resp) = Inr rr"
    and "RegisterResp.Status rr \<noteq> 0"
  shows "Register w pushKey =
           Err (ErrorString (''registration failed with status ''
                               @ int_to_string (RegisterResp.Status rr) @ '': '' @ Message rr))"
  using assms by (simp add: Register_def)

lemma Register_transport_error:
  assumes "plist_Marshal w = Inr body" and "http_NewRequest w = None"
    and "signRequest w body pushKey = None" and "client_Do w = Inl err"
  shows "Register w pushKey = Err (Errorf_w ''failed to send register request: '' err)"
  using assms by (simp add: Register_def)

lemma RealHandshaker_Handshake_registered:
  assumes "length (RegistrationData.ValidationData r) \<noteq> 0"
    and "ecdsa_GenerateKey w = Inr k0" and "rsa_GenerateKey w 0 1280 = Inr k1"
    and "rsa_GenerateKey w 1 1280 = Inr k2" and "rsa_GenerateKey w 2 2048 = Inr k3"
    and "Register w k2 = Ok rr"
  shows "Services rr = [] \<Longrightarrow>
           RealHandshaker_Handshake w (Some r) = Err (ErrorString ''no services in registration response'')"
    and "Services rr = service # services \<Longrightarrow> Users service = [] \<Longrightarrow>
           RealHandshaker_Handshake w (Some r) = Err (ErrorString ''no users in registration response'')"
    and "Services rr = service # services \<Longrightarrow> Users service = user # users \<Longrightarrow> Cert user = None \<Longrightarrow>
           RealHandshaker_Handshake w (Some r) = Err (ErrorString ''no ID certificate in registration response'')"
  using assms by (simp_all add: RealHandshaker_Handshake_def Let_def)

lemma RealHandshaker_Handshake_register_fails:
  assumes "length (RegistrationData.ValidationData r) \<noteq> 0"
    and "ecdsa_GenerateKey w = Inr k0" and "rsa_GenerateKey w 0 1280 = Inr k1"
    and "rsa_GenerateKey w 1 1280 = Inr k2" and "rsa_GenerateKey w 2 2048 = Inr k3"
    and "Register w k2 = Err err"
  shows "RealHandshaker_Handshake w (Some r) = Err (Errorf_w ''IDS registration failed: '' err)"
  using assms by (simp add: RealHandshaker_Handshake_def Let_def)

lemma nat_to_string_6004: "nat_to_string 6004 = ''6004''"
  by (simp add: nat_to_string.simps digit_char_def)

lemma Register_2fa:
  "Register example_world_2fa key =
     Err (ErrorString ''registration failed with status 6004: authentication required'')"
  by (simp add: Register_def example_world_2fa_def example_world_def signRequest_def Let_def
        int_to_string_def nat_to_string_6004)

lemma errors_Is_refl: "errors_Is e e"
  by (cases e) simp_all

lemma Register_http_status:
  assumes "plist_Marshal w = Inr body" and "http_NewRequest w = None"
    and "signRequest w body pushKey = None" and "client_Do w = Inr resp"
    and "StatusCode resp \<noteq> 200"
  shows "Register w pushKey =
           Err (ErrorString (''register request failed with status ''
                               @ nat_to_string (StatusCode resp) @ '': ''
                               @ bytes_to_string (BodyBytes resp)))"
  using assms by (simp add: Register_def)

lemma Register_status_zero:
  assumes "plist_Marshal w = Inr body" and "http_NewRequest w = None"
    and "signRequest w body pushKey = None" and "client_Do w = Inr resp"
    and "StatusCode resp = 200" and "BodyError resp = None"
    and "plist_Unmarshal_RegisterResp w (BodyBytes resp) = Inr rr"
    and "RegisterResp.Status rr = 0"
  shows "Register w pushKey = Ok rr"
  using assms by (simp add: Register_def)

lemma Register_user_status:
  "Register example_world_user_status key = Ok example_response_user_status"
  by (simp add: Register_def example_world_user_status_def example_world_def signRequest_def
        Let_def example_response_user_status_def)

text \<open>
  C6, as stated: a non-zero status field embedded in the registration response comes back
  as a typed status condition of the IDS enumeration, which a caller can match. It does
  not: for the status 6004 (two-factor required) \<^verbatim>\<open>Register\<close> returns a formatted message,
  and neither it nor the error the handshake wraps around it is, or contains, an
  \<^verbatim>\<open>IDSError\<close>. And a response whose own status is 0 is a success of \<^verbatim>\<open>Register\<close> also
  where the status fields of its service and user entries are 6004: they are not read.
\<close>

theorem Register_status_counterexample:
  "Register example_world_2fa (RSAPrivateKey 2)
     = Err (ErrorString ''registration failed with status 6004: authentication required'')
   \<and> \<not> errors_Is (ErrorString ''registration failed with status 6004: authentication required'')
            Err2FARequired
   \<and> errors_As_IDSError
         (ErrorString ''registration failed with status 6004: authentication required'') = None
   \<and> (RealHandshaker_Handshake example_world_2fa (Some example_registration)
         :: unit handshakeState result)
       = Err (WrapError ''IDS registration failed: registration failed with status 6004: authentication required''
               (ErrorString ''registration failed with status 6004: authentication required''))
   \<and> \<not> errors_Is
         (WrapError ''IDS registration failed: registration failed with status 6004: authentication required''
            (ErrorString ''registration failed with status 6004: authentication required''))
         Err2FARequired
   \<and> Register example_world_user_status (RSAPrivateKey 2)
       = Ok \<lparr>Message = [], Status = 0,
             Services = [\<lparr>RegisterRespService.Service = ''com.apple.madrid'',
                          Users = [\<lparr>UserID = ''P:1'', Cert = Some [48, 130],
                                    RegisterRespServiceUser.Status = 6004\<rparr>],
                          RegisterRespService.Status = 6004\<rparr>],
             RetryInterval = 0\<rparr>"
proof -
  have w: "ecdsa_GenerateKey example_world_2fa = Inr (ECDSAPrivateKey 1)"
    "\<And>i bits. rsa_GenerateKey example_world_2fa i bits = Inr (RSAPrivateKey (i + 1))"
    by (simp_all add: example_world_2fa_def example_world_def)
  have "(RealHandshaker_Handshake example_world_2fa (Some example_registration)
          :: unit handshakeState result)
        = Err (Errorf_w ''IDS registration failed: ''
                 (ErrorString ''registration failed with status 6004: authentication required''))"
    by (rule RealHandshaker_Handshake_register_fails [OF _ w(1) w(2) w(2) w(2)])
       (simp_all add: example_registration_def Register_2fa)
  then show ?thesis
    using Register_user_status [of "RSAPrivateKey 2"]
    by (simp add: Register_2fa Err2FARequired_def Errorf_w_def example_response_user_status_def)
qed

text \<open>
  C6, amended: a 200-OK registration response whose status is 0 and which has no service
  entry, whose first service has no user entry, or whose first user has no certificate is
  rejected by the handshake with an error that says which is missing, never answered with
  a state without certificate. A non-zero status field at the top level of the response
  is returned by \<^verbatim>\<open>Register\<close> as an error whose message holds the number and the message
  of the response; the status fields of the service and user entries are not read, and a
  response whose top-level status is 0 is returned as it is. The status error is not an
  \<^verbatim>\<open>IDSError\<close> and wraps nothing: neither \<^verbatim>\<open>errors.Is\<close> against a condition of the IDS
  enumeration nor \<^verbatim>\<open>errors.As\<close> matches it. It is distinct from transport failures: a
  request that could not be sent gives an error that wraps its cause, which \<^verbatim>\<open>errors.Is\<close>
  matches, and that is no plain message; an answer with another HTTP status than 200
  gives a plain message that differs from every message of a status error.
\<close>

theorem Register_failures_by_message:
  "(plist_Marshal w = Inr body \<and> http_NewRequest w = None \<and> signRequest w body pushKey = None
      \<and> client_Do w = Inr resp \<and> StatusCode resp = 200 \<and> BodyError resp = None
      \<and> plist_Unmarshal_RegisterResp w (BodyBytes resp) = Inr rr \<and> RegisterResp.Status rr \<noteq> 0
     \<longrightarrow> (\<exists>msg. Register w pushKey = Err (ErrorString msg)
               \<and> msg = ''registration failed with status '' @ int_to_string (RegisterResp.Status rr)
                         @ '': '' @ Message rr
               \<and> errors_As_IDSError (ErrorString msg) = None
               \<and> (\<forall>code. \<not> errors_Is (ErrorString msg) (IDSError code))
               \<and> (\<forall>target. errors_Is (ErrorString msg) target \<longrightarrow> target = ErrorString msg)))
   \<and> (plist_Marshal w = Inr body \<and> http_NewRequest w = None \<and> signRequest w body pushKey = None
      \<and> client_Do w = Inr resp \<and> StatusCode resp = 200 \<and> BodyError resp = None
      \<and> plist_Unmarshal_RegisterResp w (BodyBytes resp) = Inr rr \<and> RegisterResp.Status rr = 0
     \<longrightarrow> Register w pushKey = Ok rr)
   \<and> (plist_Marshal w = Inr body \<and> http_NewRequest w = None \<and> signRequest w body pushKey = None
      \<and> client_Do w = Inl err
     \<longrightarrow> Register w pushKey = Err (Errorf_w ''failed to send register request: '' err)
         \<and> errors_Is (Errorf_w ''failed to send register request: '' err) err
         \<and> (\<forall>msg. Errorf_w ''failed to send register request: '' err \<noteq> ErrorString msg))
   \<and> (plist_Marshal w = Inr body \<and> http_NewRequest w = None \<and> signRequest w body pushKey = None
      \<and> client_Do w = Inr resp \<and> StatusCode resp \<noteq> 200
     \<longrightarrow> Register w pushKey
           = Err (ErrorString (''register request failed with status ''
                                 @ nat_to_string (StatusCode resp) @ '': ''
                                 @ bytes_to_string (BodyBytes resp)))
         \<and> (\<forall>status message.
               ''register request failed with status '' @ nat_to_string (StatusCode resp) @ '': ''
                 @ bytes_to_string (BodyBytes resp)
               \<noteq> ''registration failed with status '' @ int_to_string status @ '': '' @ message))
   \<and> (length (RegistrationData.ValidationData r) \<noteq> 0
      \<and> ecdsa_GenerateKey w = Inr signingKey \<and> rsa_GenerateKey w 0 1280 = Inr encryptionKey
      \<and> rsa_GenerateKey w 1 1280 = Inr pushKey \<and> rsa_GenerateKey w 2 2048 = Inr authKey
      \<and> Register w pushKey = Ok rr
     \<longrightarrow> (Services rr = [] \<longrightarrow>
            RealHandshaker_Handshake w (Some r)
              = Err (ErrorString ''no services in registration response''))
        \<and> (\<forall>service services. Services rr = service # services \<and> Users service = [] \<longrightarrow>
            RealHandshaker_Handshake w (Some r)
              = Err (ErrorString ''no users in registration response''))
        \<and> (\<forall>service services user users.
              Services rr = service # services \<and> Users service = user # users \<and> Cert user = None \<longrightarrow>
            RealHandshaker_Handshake w (Some r)
              = Err (ErrorString ''no ID certificate in registration response'')))"
proof (intro conjI)
  show "plist_Marshal w = Inr body \<and> http_NewRequest w = None \<and> signRequest w body pushKey = None
      \<and> client_Do w = Inr resp \<and> StatusCode resp = 200 \<and> BodyError resp = None
      \<and> plist_Unmarshal_RegisterResp w (BodyBytes resp) = Inr rr \<and> RegisterResp.Status rr \<noteq> 0
     \<longrightarrow> (\<exists>msg. Register w pushKey = Err (ErrorString msg)
               \<and> msg = ''registration failed with status '' @ int_to_string (RegisterResp.Status rr)
                         @ '': '' @ Message rr
               \<and> errors_As_IDSError (ErrorString msg) = None
               \<and> (\<forall>code. \<not> errors_Is (ErrorString msg) (IDSError code))
               \<and> (\<forall>target. errors_Is (ErrorString msg) target \<longrightarrow> target = ErrorString msg))"
    using Register_status_error [of w body pushKey resp rr] by auto
  show "plist_Marshal w = Inr body \<and> http_NewRequest w = None \<and> signRequest w body pushKey = None
      \<and> client_Do w = Inr resp \<and> StatusCode resp = 200 \<and> BodyError resp = None
      \<and> plist_Unmarshal_RegisterResp w (BodyBytes resp) = Inr rr \<and> RegisterResp.Status rr = 0
     \<longrightarrow> Register w pushKey = Ok rr"
    using Register_status_zero [of w body pushKey resp rr] by simp
  show "plist_Marshal w = Inr body \<and> http_NewRequest w = None \<and> signRequest w body pushKey = None
      \<and> client_Do w = Inl err
     \<longrightarrow> Register w pushKey = Err (Errorf_w ''failed to send register request: '' err)
         \<and> errors_Is (Errorf_w ''failed to send register request: '' err) err
         \<and> (\<forall>msg. Errorf_w ''failed to send register request: '' err \<noteq> ErrorString msg)"
    using Register_transport_error [of w body pushKey err]
    by (simp add: Errorf_w_def errors_Is_refl)
  show "plist_Marshal w = Inr body \<and> http_NewRequest w = None \<and> signRequest w body pushKey = None
      \<and> client_Do w = Inr resp \<and> StatusCode resp \<noteq> 200
     \<longrightarrow> Register w pushKey
           = Err (ErrorString (''register request failed with status ''
                                 @ nat_to_string (StatusCode resp) @ '': ''
                                 @ bytes_to_string (BodyBytes resp)))
         \<and> (\<forall>status message.
               ''register request failed with status '' @ nat_to_string (StatusCode resp) @ '': ''
                 @ bytes_to_string (BodyBytes resp)
               \<noteq> ''registration failed with status '' @ int_to_string status @ '': '' @ message)"
    using Register_http_status [of w body pushKey resp] by simp
  show "length (RegistrationData.ValidationData r) \<noteq> 0
      \<and> ecdsa_GenerateKey w = Inr signingKey \<and> rsa_GenerateKey w 0 1280 = Inr encryptionKey
      \<and> rsa_GenerateKey w 1 1280 = Inr pushKey \<and> rsa_GenerateKey w 2 2048 = Inr authKey
      \<and> Register w pushKey = Ok rr
     \<longrightarrow> (Services rr = [] \<longrightarrow>
            RealHandshaker_Handshake w (Some r)
              = Err (ErrorString ''no services in registration response''))
        \<and> (\<forall>service services. Services rr = service # services \<and> Users service = [] \<longrightarrow>
            RealHandshaker_Handshake w (Some r)
              = Err (ErrorString ''no users in registration response''))
        \<and> (\<forall>service services user users.
              Services rr = service # services \<and> Users service = user # users \<and> Cert user = None \<longrightarrow>
            RealHandshaker_Handshake w (Some r)
              = Err (ErrorString ''no ID certificate in registration response''))"
    using RealHandshaker_Handshake_registered [of r w signingKey encryptionKey pushKey authKey rr]
    by auto blast
qed

theorem Register_failures_by_message_witness:
  "Register example_world_2fa (RSAPrivateKey 2)
     = Err (ErrorString ''registration failed with status 6004: authentication required'')
   \<and> Register example_world_user_status (RSAPrivateKey 2) = Ok example_response_user_status
   \<and> Register example_world_offline (RSAPrivateKey 2)
     = Err (Errorf_w ''failed to send register request: '' (ErrorString ''connection refused''))
   \<and> errors_Is (Errorf_w ''failed to send register request: '' (ErrorString ''connection refused''))
        (ErrorString ''connection refused'')
   \<and> Register (example_world\<lparr>client_Do := Inr \<lparr>StatusCode = 503, BodyBytes = [], BodyError = None\<rparr>\<rparr>)
        (RSAPrivateKey 2)
     = Err (ErrorString ''register request failed with status 503: '')
   \<and> (RealHandshaker_Handshake example_world_no_services (Some example_registration)
        :: unit handshakeState result)
     = Err (ErrorString ''no services in registration response'')
   \<and> (RealHandshaker_Handshake example_world_no_cert (Some example_registration)
        :: unit handshakeState result)
     = Err (ErrorString ''no ID certificate in registration response'')"
proof -
  have wa: "plist_Marshal example_world_2fa = Inr [60, 63]"
    "http_NewRequest example_world_2fa = None"
    "signRequest example_world_2fa [60, 63] (RSAPrivateKey 2) = None"
    "client_Do example_world_2fa = Inr \<lparr>StatusCode = 200, BodyBytes = [60], BodyError = None\<rparr>"
    "plist_Unmarshal_RegisterResp example_world_2fa [60]
       = Inr \<lparr>Message = ''authentication required'', Status = 6004, Services = [],
               RetryInterval = 0\<rparr>"
    by (simp_all add: example_world_2fa_def example_world_def signRequest_def)
  have a: "Register example_world_2fa (RSAPrivateKey 2)
     = Err (ErrorString ''registration failed with status 6004: authentication required'')"
    using Register_failures_by_message
            [where w = example_world_2fa and body = "[60, 63]" and pushKey = "RSAPrivateKey 2"
               and resp = "\<lparr>StatusCode = 200, BodyBytes = [60], BodyError = None\<rparr>"
               and rr = "\<lparr>Message = ''authentication required'', Status = 6004, Services = [],
                          RetryInterval = 0\<rparr>", THEN conjunct1]
    by (simp add: wa int_to_string_def nat_to_string_6004)
  have wu: "plist_Marshal example_world_user_status = Inr [60, 63]"
    "http_NewRequest example_world_user_status = None"
    "signRequest example_world_user_status [60, 63] (RSAPrivateKey 2) = None"
    "client_Do example_world_user_status
       = Inr \<lparr>StatusCode = 200, BodyBytes = [60], BodyError = None\<rparr>"
    "plist_Unmarshal_RegisterResp example_world_user_status [60] = Inr example_response_user_status"
    "RegisterResp.Status example_response_user_status = 0"
    by (simp_all add: example_world_user_status_def example_world_def signRequest_def
          example_response_user_status_def)
  have u: "Register example_world_user_status (RSAPrivateKey 2) = Ok example_response_user_status"
    using Register_failures_by_message
            [where w = example_world_user_status and body = "[60, 63]"
               and pushKey = "RSAPrivateKey 2"
               and resp = "\<lparr>StatusCode = 200, BodyBytes = [60], BodyError = None\<rparr>"
               and rr = example_response_user_status, THEN conjunct2, THEN conjunct1]
    by (simp add: wu)
  have wb: "plist_Marshal example_world_offline = Inr [60, 63]"
    "http_NewRequest example_world_offline = None"
    "signRequest example_world_offline [60, 63] (RSAPrivateKey 2) = None"
    "client_Do example_world_offline = Inl (ErrorString ''connection refused'')"
    by (simp_all add: example_world_offline_def example_world_def signRequest_def)
  have b: "Register example_world_offline (RSAPrivateKey 2)
             = Err (Errorf_w ''failed to send register request: '' (ErrorString ''connection refused''))
           \<and> errors_Is (Errorf_w ''failed to send register request: '' (ErrorString ''connection refused''))
               (ErrorString ''connection refused'')"
    using Register_failures_by_message
            [where w = example_world_offline and body = "[60, 63]" and pushKey = "RSAPrivateKey 2"
               and err = "ErrorString ''connection refused''",
             THEN conjunct2, THEN conjunct2, THEN conjunct1]
    by (simp add: wb)
  have wh: "plist_Marshal (example_world\<lparr>client_Do := Inr \<lparr>StatusCode = 503, BodyBytes = [], BodyError = None\<rparr>\<rparr>)
              = Inr [60, 63]"
    "http_NewRequest (example_world\<lparr>client_Do := Inr \<lparr>StatusCode = 503, BodyBytes = [], BodyError = None\<rparr>\<rparr>)
       = None"
    "signRequest (example_world\<lparr>client_Do := Inr \<lparr>StatusCode = 503, BodyBytes = [], BodyError = None\<rparr>\<rparr>)
       [60, 63] (RSAPrivateKey 2) = None"
    "client_Do (example_world\<lparr>client_Do := Inr \<lparr>StatusCode = 503, BodyBytes = [], BodyError = None\<rparr>\<rparr>)
       = Inr \<lparr>StatusCode = 503, BodyBytes = [], BodyError = None\<rparr>"
    by (simp_all add: example_world_def signRequest_def)
  have n503: "nat_to_string 503 = ''503''"
    by (simp add: nat_to_string.simps digit_char_def)
  have h: "Register (example_world\<lparr>client_Do := Inr \<lparr>StatusCode = 503, BodyBytes = [], BodyError = None\<rparr>\<rparr>)
             (RSAPrivateKey 2)
           = Err (ErrorString ''register request failed with status 503: '')"
    using Register_failures_by_message
            [where w = "example_world\<lparr>client_Do := Inr \<lparr>StatusCode = 503, BodyBytes = [], BodyError = None\<rparr>\<rparr>"
               and body = "[60, 63]" and pushKey = "RSAPrivateKey 2"
               and resp = "\<lparr>StatusCode = 503, BodyBytes = [], BodyError = None\<rparr>",
             THEN conjunct2, THEN conjunct2, THEN conjunct2, THEN conjunct1]
    by (simp add: wh n503 bytes_to_string_def)
  have wc: "ecdsa_GenerateKey example_world_no_services = Inr (ECDSAPrivateKey 1)"
    "rsa_GenerateKey example_world_no_services 0 1280 = Inr (RSAPrivateKey 1)"
    "rsa_GenerateKey example_world_no_services (Suc 0) 1280 = Inr (RSAPrivateKey 2)"
    "rsa_GenerateKey example_world_no_services 2 2048 = Inr (RSAPrivateKey 3)"
    "Register example_world_no_services (RSAPrivateKey 2)
       = Ok \<lparr>Message = [], Status = 0, Services = [], RetryInterval = 0\<rparr>"
    by (simp_all add: Register_def example_world_no_services_def example_world_def signRequest_def)
  have v: "length (RegistrationData.ValidationData example_registration) \<noteq> 0"
    by (simp add: example_registration_def)
  have c: "(RealHandshaker_Handshake example_world_no_services (Some example_registration)
             :: unit handshakeState result)
           = Err (ErrorString ''no services in registration response'')"
    using Register_failures_by_message
            [where w = example_world_no_services and pushKey = "RSAPrivateKey 2"
               and r = example_registration and signingKey = "ECDSAPrivateKey 1" and encryptionKey = "RSAPrivateKey 1"
               and authKey = "RSAPrivateKey 3"
               and rr = "\<lparr>Message = [], Status = 0, Services = [], RetryInterval = 0\<rparr>",
               THEN conjunct2, THEN conjunct2, THEN conjunct2, THEN conjunct2]
          v
    by (simp add: wc)
  have wd: "ecdsa_GenerateKey example_world_no_cert = Inr (ECDSAPrivateKey 1)"
    "rsa_GenerateKey example_world_no_cert 0 1280 = Inr (RSAPrivateKey 1)"
    "rsa_GenerateKey example_world_no_cert (Suc 0) 1280 = Inr (RSAPrivateKey 2)"
    "rsa_GenerateKey example_world_no_cert 2 2048 = Inr (RSAPrivateKey 3)"
    "Register example_world_no_cert (RSAPrivateKey 2)
       = Ok \<lparr>Message = [], Status = 0,
               Services = [\<lparr>RegisterRespService.Service = ''com.apple.madrid'',
                            Users = [\<lparr>UserID = ''P:1'', Cert = None,
                                      RegisterRespServiceUser.Status = 0\<rparr>],
                            RegisterRespService.Status = 0\<rparr>],
               RetryInterval = 0\<rparr>"
    by (simp_all add: Register_def example_world_no_cert_def example_world_def signRequest_def)
  have d: "(RealHandshaker_Handshake example_world_no_cert (Some example_registration)
             :: unit handshakeState result)
           = Err (ErrorString ''no ID certificate in registration response'')"
    using Register_failures_by_message
            [where w = example_world_no_cert and pushKey = "RSAPrivateKey 2"
               and r = example_registration and signingKey = "ECDSAPrivateKey 1" and encryptionKey = "RSAPrivateKey 1"
               and authKey = "RSAPrivateKey 3"
               and rr = "\<lparr>Message = [], Status = 0,
                      Services = [\<lparr>RegisterRespService.Service = ''com.apple.madrid'',
                                   Users = [\<lparr>UserID = ''P:1'', Cert = None,
                                             RegisterRespServiceUser.Status = 0\<rparr>],
                                   RegisterRespService.Status = 0\<rparr>],
                      RetryInterval = 0\<rparr>",
               THEN conjunct2, THEN conjunct2, THEN conjunct2, THEN conjunct2]
          v
    by (simp add: wd)
  show ?thesis
    by (intro conjI a u b [THEN conjunct1] b [THEN conjunct2] h c d)
qed

end
